theory Spec2Isabelle
  imports Main
begin

section \<open>JavaScript values\<close>

text \<open>
  The provider gateway of AgentForge Lite (\<^verbatim>\<open>src/aiProviders.js\<close>, and its inlined copy
  \<^verbatim>\<open>AIProviders\<close> in the UI controller) reads parsed JSON bodies with property access,
  optional chaining, truthiness tests and \<^verbatim>\<open>String.prototype.trim\<close>. The values it can
  meet are the values \<^verbatim>\<open>JSON.parse\<close> produces, and \<^verbatim>\<open>undefined\<close> (the result of
  reading a property that is not there).

  Limits of the model, all of them on the data and none on the control flow:
  \<^item> a string is a list of \<^typ>\<open>char\<close>, each standing for one UTF-16 code unit below
    \<^verbatim>\<open>0x100\<close>;
  \<^item> a JSON number is an integer (numbers with a fraction or an exponent are not
    represented); it is printed in decimal;
  \<^item> an object is the association list of its own properties; where a key is listed
    twice, the first entry is the property.
\<close>

datatype jsval =
    JUndefined
  | JNull
  | JBool bool
  | JNum int
  | JStr string
  | JArr "jsval list"
  | JObj "(string \<times> jsval) list"

text \<open>A thrown value: an error object, of which the code reads \<^verbatim>\<open>name\<close> and \<^verbatim>\<open>message\<close>.\<close>

record js_error =
  name :: string
  message :: string

text \<open>\<^verbatim>\<open>new Error(msg)\<close>, and the \<^verbatim>\<open>TypeError\<close> the engine throws by itself.\<close>

definition Error :: "string \<Rightarrow> js_error" where
  "Error msg = \<lparr>name = ''Error'', message = msg\<rparr>"

definition TypeError :: "string \<Rightarrow> js_error" where
  "TypeError msg = \<lparr>name = ''TypeError'', message = msg\<rparr>"

text \<open>Truthiness (\<^verbatim>\<open>ToBoolean\<close>): what \<^verbatim>\<open>if (x)\<close>, \<^verbatim>\<open>!x\<close>, \<^verbatim>\<open>&&\<close> and \<^verbatim>\<open>||\<close> test.\<close>

fun truthy :: "jsval \<Rightarrow> bool" where
  "truthy JUndefined = False"
| "truthy JNull = False"
| "truthy (JBool b) = b"
| "truthy (JNum n) = (n \<noteq> 0)"
| "truthy (JStr s) = (s \<noteq> [])"
| "truthy (JArr xs) = True"
| "truthy (JObj kvs) = True"

fun nullish :: "jsval \<Rightarrow> bool" where
  "nullish JUndefined = True"
| "nullish JNull = True"
| "nullish v = False"

definition quoted :: "string \<Rightarrow> string" where
  "quoted k = [CHR 0x27] @ k @ [CHR 0x27]"

definition own_prop :: "(string \<times> jsval) list \<Rightarrow> string \<Rightarrow> jsval" where
  "own_prop kvs k = (case map_of kvs k of None \<Rightarrow> JUndefined | Some v \<Rightarrow> v)"

text \<open>
  \<^verbatim>\<open>x.k\<close>, for the property names the adapters read (\<^verbatim>\<open>error\<close>, \<^verbatim>\<open>message\<close>,
  \<^verbatim>\<open>choices\<close>, \<^verbatim>\<open>content\<close>, \<^verbatim>\<open>generated_text\<close>): none of them is a property of a
  built-in prototype, so on a boolean, a number, a string or an array the read gives
  \<^verbatim>\<open>undefined\<close>. On \<^verbatim>\<open>undefined\<close> and \<^verbatim>\<open>null\<close> the engine throws a
  \<^verbatim>\<open>TypeError\<close>; its message is the engine's own (V8's wording is used).
\<close>

fun get_prop :: "jsval \<Rightarrow> string \<Rightarrow> js_error + jsval" where
  "get_prop JUndefined k =
     Inl (TypeError (''Cannot read properties of undefined (reading '' @ quoted k @ '')''))"
| "get_prop JNull k =
     Inl (TypeError (''Cannot read properties of null (reading '' @ quoted k @ '')''))"
| "get_prop (JObj kvs) k = Inr (own_prop kvs k)"
| "get_prop v k = Inr JUndefined"

text \<open>\<^verbatim>\<open>x?.k\<close>: \<^verbatim>\<open>undefined\<close> when \<^verbatim>\<open>x\<close> is \<^verbatim>\<open>undefined\<close> or \<^verbatim>\<open>null\<close>, else \<^verbatim>\<open>x.k\<close>.\<close>

fun opt_prop :: "jsval \<Rightarrow> string \<Rightarrow> jsval" where
  "opt_prop (JObj kvs) k = own_prop kvs k"
| "opt_prop v k = JUndefined"

text \<open>
  \<^verbatim>\<open>x[0]\<close>: the first element of an array, the first code unit of a string, the property
  \<^verbatim>\<open>"0"\<close> of an object; \<^verbatim>\<open>undefined\<close> where there is none.
\<close>

fun get_index0 :: "jsval \<Rightarrow> js_error + jsval" where
  "get_index0 JUndefined =
     Inl (TypeError (''Cannot read properties of undefined (reading '' @ quoted ''0'' @ '')''))"
| "get_index0 JNull =
     Inl (TypeError (''Cannot read properties of null (reading '' @ quoted ''0'' @ '')''))"
| "get_index0 (JArr []) = Inr JUndefined"
| "get_index0 (JArr (x # xs)) = Inr x"
| "get_index0 (JStr []) = Inr JUndefined"
| "get_index0 (JStr (c # cs)) = Inr (JStr [c])"
| "get_index0 (JObj kvs) = Inr (own_prop kvs ''0'')"
| "get_index0 v = Inr JUndefined"

subsection \<open>Strings\<close>

text \<open>
  White space and line terminators as \<^verbatim>\<open>String.prototype.trim\<close> strips them, among the
  code units below \<^verbatim>\<open>0x100\<close>: TAB, LF, VT, FF, CR, SPACE and NO-BREAK SPACE.
\<close>

definition is_space :: "char \<Rightarrow> bool" where
  "is_space c = (c \<in> set [CHR 0x09, CHR 0x0A, CHR 0x0B, CHR 0x0C, CHR 0x0D, CHR 0x20, CHR 0xA0])"

definition trim :: "string \<Rightarrow> string" where
  "trim s = rev (dropWhile is_space (rev (dropWhile is_space s)))"

text \<open>
  \<^verbatim>\<open>x.trim()\<close>, where \<^verbatim>\<open>site\<close> is the source text of the callee (V8 prints it when the
  callee is not a function). Only a string has a \<^verbatim>\<open>trim\<close> method: a value of JSON is
  never a function, so an object's own \<^verbatim>\<open>trim\<close> property is not callable either.
\<close>

fun call_trim :: "string \<Rightarrow> jsval \<Rightarrow> js_error + jsval" where
  "call_trim site (JStr s) = Inr (JStr (trim s))"
| "call_trim site JUndefined =
     Inl (TypeError (''Cannot read properties of undefined (reading '' @ quoted ''trim'' @ '')''))"
| "call_trim site JNull =
     Inl (TypeError (''Cannot read properties of null (reading '' @ quoted ''trim'' @ '')''))"
| "call_trim site v = Inl (TypeError (site @ '' is not a function''))"

text \<open>\<^verbatim>\<open>s.includes(t)\<close>: \<^verbatim>\<open>t\<close> occurs in \<^verbatim>\<open>s\<close> as a contiguous run.\<close>

fun is_prefix :: "string \<Rightarrow> string \<Rightarrow> bool" where
  "is_prefix [] s = True"
| "is_prefix (c # t) [] = False"
| "is_prefix (c # t) (d # s) = (c = d \<and> is_prefix t s)"

fun str_includes :: "string \<Rightarrow> string \<Rightarrow> bool" where
  "str_includes [] t = (t = [])"
| "str_includes (c # s) t = (is_prefix t (c # s) \<or> str_includes s t)"

text \<open>Decimal printing of a number (\<^verbatim>\<open>ToString\<close> of an integer, as a template literal does).\<close>

definition digit :: "nat \<Rightarrow> char" where
  "digit d = ''0123456789'' ! d"

fun show_nat :: "nat \<Rightarrow> string" where
  "show_nat n = (if n < 10 then [digit n] else show_nat (n div 10) @ [digit (n mod 10)])"

declare show_nat.simps [simp del]

definition show_int :: "int \<Rightarrow> string" where
  "show_int i = (if i < 0 then ''-'' @ show_nat (nat (- i)) else show_nat (nat i))"

text \<open>
  \<^verbatim>\<open>ToString\<close>, which \<^verbatim>\<open>new Error(x)\<close> applies to its argument. An array prints its
  elements separated by commas, \<^verbatim>\<open>null\<close> and \<^verbatim>\<open>undefined\<close> elements as nothing. An
  object prints as \<^verbatim>\<open>[object Object]\<close>, unless it has an own property \<^verbatim>\<open>toString\<close>:
  that one shadows the inherited method and is not callable, and the conversion throws.
\<close>

fun to_string :: "jsval \<Rightarrow> js_error + string"
  and to_string_elems :: "jsval list \<Rightarrow> js_error + string" where
  "to_string JUndefined = Inr ''undefined''"
| "to_string JNull = Inr ''null''"
| "to_string (JBool b) = Inr (if b then ''true'' else ''false'')"
| "to_string (JNum n) = Inr (show_int n)"
| "to_string (JStr s) = Inr s"
| "to_string (JArr xs) = to_string_elems xs"
| "to_string (JObj kvs) =
     (if map_of kvs ''toString'' = None then Inr ''[object Object]''
      else Inl (TypeError ''Cannot convert object to primitive value''))"
| "to_string_elems [] = Inr []"
| "to_string_elems (x # xs) =
     (case (if nullish x then Inr [] else to_string x) of
        Inl e \<Rightarrow> Inl e
      | Inr s \<Rightarrow>
          (if xs = [] then Inr s
           else (case to_string_elems xs of
                   Inl e \<Rightarrow> Inl e
                 | Inr r \<Rightarrow> Inr (s @ '','' @ r))))"

text \<open>
  \<^verbatim>\<open>encodeURIComponent\<close>: the unreserved characters stay, every other code unit is written
  as the percent-escaped bytes of its UTF-8 encoding (one byte below \<^verbatim>\<open>0x80\<close>, two from
  there to \<^verbatim>\<open>0xFF\<close>).
\<close>

definition unreserved :: "char \<Rightarrow> bool" where
  "unreserved c =
     (c \<in> set ''ABCDEFGHIJKLMNOPQRSTUVWXYZabcdefghijklmnopqrstuvwxyz0123456789-_.!~*()''
      \<or> c = CHR 0x27)"

definition hex_digit :: "nat \<Rightarrow> char" where
  "hex_digit d = ''0123456789ABCDEF'' ! d"

definition percent :: "nat \<Rightarrow> string" where
  "percent b = [CHR ''%'', hex_digit (b div 16), hex_digit (b mod 16)]"

definition encode_unit :: "char \<Rightarrow> string" where
  "encode_unit c =
     (if unreserved c then [c]
      else if (of_char c :: nat) < 128 then percent (of_char c)
      else percent (192 + of_char c div 64) @ percent (128 + of_char c mod 64))"

definition encodeURIComponent :: "string \<Rightarrow> string" where
  "encodeURIComponent s = concat (map encode_unit s)"

text \<open>
  \<^verbatim>\<open>xs.join(sep)\<close> on an array of strings: the first element, then the separator and the
  next element for each one that follows; the empty string for the empty array.
\<close>

definition js_join :: "string \<Rightarrow> string list \<Rightarrow> string" where
  "js_join sep xs = (case xs of [] \<Rightarrow> [] | x # rest \<Rightarrow> foldl (\<lambda>r e. r @ sep @ e) x rest)"

section \<open>The network\<close>

text \<open>
  A chat message as the callers build it: \<^verbatim>\<open>{ role, content }\<close>, both strings.
\<close>

record chat_message =
  role :: string
  content :: string

text \<open>
  The object each adapter passes to \<^verbatim>\<open>JSON.stringify\<close> as the request body, by its
  variable parts:
  \<^item> \<open>ChatCompletions model messages\<close> is
    \<^verbatim>\<open>{ model, messages, temperature: 0.7, max_tokens: 500 }\<close>;
  \<^item> \<open>TextGeneration prompt\<close> is
    \<^verbatim>\<open>{ inputs: prompt, parameters: { max_new_tokens: 500, temperature: 0.7, return_full_text: false } }\<close>;
  \<^item> \<open>OllamaChat model messages\<close> is
    \<^verbatim>\<open>{ model, messages, stream: false, options: { temperature: 0.7, num_predict: 500 } }\<close>.
\<close>

datatype payload =
    ChatCompletions string "chat_message list"
  | TextGeneration string
  | OllamaChat string "chat_message list"

record request =
  url :: string
  http_method :: string
  headers :: "(string \<times> string) list"
  body :: payload

text \<open>
  What \<^verbatim>\<open>fetch\<close> resolves to: the status, and what \<^verbatim>\<open>response.json()\<close> settles to (the parsed
  body, or the error it rejects with). \<^verbatim>\<open>response.ok\<close> is, by the Fetch standard, true
  exactly for a status from 200 to 299.
\<close>

record response =
  status :: nat
  json :: "js_error + jsval"

definition ok :: "response \<Rightarrow> bool" where
  "ok r = (200 \<le> status r \<and> status r \<le> 299)"

datatype fetch_outcome = Rejected js_error | Resolved response

text \<open>
  The environment of a call: the behaviour of \<^verbatim>\<open>fetch\<close> (any function of the request), and
  \<^verbatim>\<open>window.location.origin\<close>. Every adapter returns the requests it issued, in order,
  with its result: \<open>Inl\<close> a thrown error, \<open>Inr\<close> the returned value. Every promise
  settles here: a \<^verbatim>\<open>fetch\<close> that hangs for ever (the code sets no timeout) is not a
  behaviour of this model.
\<close>

record env =
  fetch :: "request \<Rightarrow> fetch_outcome"
  origin :: string

type_synonym outcome = "request list \<times> (js_error + jsval)"

section \<open>The standalone module: aiProviders.js\<close>

definition withCors :: "string \<Rightarrow> string" where
  "withCors u = ''https://api.allorigins.win/raw?url='' @ encodeURIComponent u"

text \<open>The expression \<^verbatim>\<open>x.choices[0].message.content\<close>.\<close>

definition choices0_message_content :: "jsval \<Rightarrow> js_error + jsval" where
  "choices0_message_content x =
     (case get_prop x ''choices'' of
        Inl e \<Rightarrow> Inl e
      | Inr choices \<Rightarrow>
          (case get_index0 choices of
             Inl e \<Rightarrow> Inl e
           | Inr choice \<Rightarrow>
               (case get_prop choice ''message'' of
                  Inl e \<Rightarrow> Inl e
                | Inr m \<Rightarrow> get_prop m ''content'')))"

text \<open>
  \<^verbatim>\<open>const error = await response.json().catch(() => ({ error: 'Unknown error' }));\<close>
  \<^verbatim>\<open>throw new Error(error.error?.message || fallback);\<close>
  always throws: the \<^verbatim>\<open>Error\<close> it builds, or the \<^verbatim>\<open>TypeError\<close> of reading \<^verbatim>\<open>error.error\<close>
  off \<^verbatim>\<open>null\<close>, or the one of printing the message.
\<close>

definition throw_remote_error :: "response \<Rightarrow> string \<Rightarrow> js_error" where
  "throw_remote_error response fallback =
     (let error = (case json response of
                     Inl rejected \<Rightarrow> JObj [(''error'', JStr ''Unknown error'')]
                   | Inr parsed \<Rightarrow> parsed)
      in case get_prop error ''error'' of
           Inl e \<Rightarrow> e
         | Inr inner \<Rightarrow>
             (let m = opt_prop inner ''message''
              in if truthy m
                 then (case to_string m of Inl e \<Rightarrow> e | Inr s \<Rightarrow> Error s)
                 else Error fallback))"

subsection \<open>sendOpenRouterChat\<close>

definition openRouter_request :: "env \<Rightarrow> string \<Rightarrow> chat_message list \<Rightarrow> string \<Rightarrow> request" where
  "openRouter_request env model messages apiKey =
     \<lparr>url = ''https://openrouter.ai/api/v1/chat/completions'',
      http_method = ''POST'',
      headers = [(''Content-Type'', ''application/json''),
                 (''Authorization'', ''Bearer '' @ apiKey),
                 (''HTTP-Referer'', origin env),
                 (''X-Title'', ''AgentForge Lite'')],
      body = ChatCompletions model messages\<rparr>"

text \<open>The \<^verbatim>\<open>try\<close> block, from the settled \<^verbatim>\<open>fetch\<close> on.\<close>

definition openRouter_try :: "fetch_outcome \<Rightarrow> js_error + jsval" where
  "openRouter_try fetched =
     (case fetched of
        Rejected e \<Rightarrow> Inl e
      | Resolved response \<Rightarrow>
          if \<not> ok response
          then Inl (throw_remote_error response (''HTTP '' @ show_nat (status response)))
          else (case json response of
                  Inl e \<Rightarrow> Inl e
                | Inr data \<Rightarrow>
                    (case get_prop data ''choices'' of
                       Inl e \<Rightarrow> Inl e
                     | Inr choices \<Rightarrow>
                         if \<not> truthy choices
                         then Inl (Error ''Invalid response format from OpenRouter'')
                         else (case get_index0 choices of
                                 Inl e \<Rightarrow> Inl e
                               | Inr choice \<Rightarrow>
                                   if \<not> truthy choice
                                   then Inl (Error ''Invalid response format from OpenRouter'')
                                   else choices0_message_content data))))"

text \<open>The inner \<^verbatim>\<open>try\<close> block, through the CORS proxy.\<close>

definition openRouter_retry :: "fetch_outcome \<Rightarrow> js_error + jsval" where
  "openRouter_retry fetched =
     (case fetched of
        Rejected e \<Rightarrow> Inl e
      | Resolved corsResponse \<Rightarrow>
          if \<not> ok corsResponse
          then Inl (Error (''HTTP '' @ show_nat (status corsResponse)))
          else (case json corsResponse of
                  Inl e \<Rightarrow> Inl e
                | Inr corsData \<Rightarrow> choices0_message_content corsData))"

definition sendOpenRouterChat :: "env \<Rightarrow> string \<Rightarrow> chat_message list \<Rightarrow> string \<Rightarrow> outcome" where
  "sendOpenRouterChat env model messages apiKey =
     (if apiKey = [] then ([], Inl (Error ''OpenRouter API key is required''))
      else
        (let req = openRouter_request env model messages apiKey
         in case openRouter_try (fetch env req) of
              Inr reply \<Rightarrow> ([req], Inr reply)
            | Inl error \<Rightarrow>
                if name error = ''TypeError'' \<and> str_includes (message error) ''CORS''
                then
                  (let corsReq = req\<lparr>url := withCors (url req)\<rparr>
                   in case openRouter_retry (fetch env corsReq) of
                        Inr reply \<Rightarrow> ([req, corsReq], Inr reply)
                      | Inl corsError \<Rightarrow>
                          ([req, corsReq],
                           Inl (Error ''CORS error - try enabling browser CORS extension or use different provider'')))
                else ([req], Inl error)))"

subsection \<open>sendHuggingFaceChat\<close>

text \<open>The arrow function that turns one message into its line of the prompt.\<close>

definition prompt_line :: "chat_message \<Rightarrow> string" where
  "prompt_line msg =
     (if role msg = ''system'' then ''System: '' @ content msg
      else if role msg = ''user'' then ''User: '' @ content msg
      else if role msg = ''assistant'' then ''Assistant: '' @ content msg
      else content msg)"

definition huggingFace_prompt :: "chat_message list \<Rightarrow> string" where
  "huggingFace_prompt messages =
     js_join ''\<newline>'' (map prompt_line messages) @ ''\<newline>Assistant:''"

definition huggingFace_request :: "string \<Rightarrow> chat_message list \<Rightarrow> string \<Rightarrow> request" where
  "huggingFace_request model messages apiKey =
     \<lparr>url = ''https://api-inference.huggingface.co/models/'' @ model,
      http_method = ''POST'',
      headers = [(''Content-Type'', ''application/json'')]
                @ (if apiKey \<noteq> [] then [(''Authorization'', ''Bearer '' @ apiKey)] else []),
      body = TextGeneration (huggingFace_prompt messages)\<rparr>"

definition is_array :: "jsval \<Rightarrow> bool" where
  "is_array v = (case v of JArr xs \<Rightarrow> True | _ \<Rightarrow> False)"

text \<open>\<^verbatim>\<open>g?.trim()\<close>.\<close>

definition opt_call_trim :: "string \<Rightarrow> jsval \<Rightarrow> js_error + jsval" where
  "opt_call_trim site g = (if nullish g then Inr JUndefined else call_trim site g)"

text \<open>The condition \<^verbatim>\<open>Array.isArray(data) && data[0]?.generated_text\<close>, as a truth value.\<close>

definition first_generated_text :: "jsval \<Rightarrow> js_error + bool" where
  "first_generated_text data =
     (if is_array data
      then (case get_index0 data of
              Inl e \<Rightarrow> Inl e
            | Inr first \<Rightarrow> Inr (truthy (opt_prop first ''generated_text'')))
      else Inr False)"

definition huggingFace_try :: "fetch_outcome \<Rightarrow> js_error + jsval" where
  "huggingFace_try fetched =
     (case fetched of
        Rejected e \<Rightarrow> Inl e
      | Resolved response \<Rightarrow>
          if \<not> ok response
          then Inl (throw_remote_error response
                      (''HTTP '' @ show_nat (status response)
                       @ '' - Model may be loading, try again in a moment''))
          else (case json response of
                  Inl e \<Rightarrow> Inl e
                | Inr data \<Rightarrow>
                    (case first_generated_text data of
                       Inl e \<Rightarrow> Inl e
                     | Inr True \<Rightarrow>
                         (case get_index0 data of
                            Inl e \<Rightarrow> Inl e
                          | Inr first \<Rightarrow>
                              (case get_prop first ''generated_text'' of
                                 Inl e \<Rightarrow> Inl e
                               | Inr g \<Rightarrow> call_trim ''data[0].generated_text.trim'' g))
                     | Inr False \<Rightarrow>
                         (case get_prop data ''generated_text'' of
                            Inl e \<Rightarrow> Inl e
                          | Inr g \<Rightarrow>
                              if truthy g then call_trim ''data.generated_text.trim'' g
                              else Inl (Error ''Invalid response format from HuggingFace'')))))"

text \<open>
  The salvage of the proxy's body:
  \<^verbatim>\<open>corsData[0]?.generated_text?.trim() || corsData.generated_text?.trim() || 'No response generated'\<close>.
  An optional chain that meets \<^verbatim>\<open>undefined\<close> or \<^verbatim>\<open>null\<close> is \<^verbatim>\<open>undefined\<close> as a whole.
\<close>

definition salvage :: "jsval \<Rightarrow> js_error + jsval" where
  "salvage corsData =
     (case get_index0 corsData of
        Inl e \<Rightarrow> Inl e
      | Inr first \<Rightarrow>
          (case (if nullish first then Inr JUndefined
                 else opt_call_trim ''corsData[0]?.generated_text?.trim''
                        (opt_prop first ''generated_text'')) of
             Inl e \<Rightarrow> Inl e
           | Inr a \<Rightarrow>
               if truthy a then Inr a
               else (case get_prop corsData ''generated_text'' of
                       Inl e \<Rightarrow> Inl e
                     | Inr g \<Rightarrow>
                         (case opt_call_trim ''corsData.generated_text?.trim'' g of
                            Inl e \<Rightarrow> Inl e
                          | Inr b \<Rightarrow>
                              if truthy b then Inr b
                              else Inr (JStr ''No response generated'')))))"

definition huggingFace_retry :: "fetch_outcome \<Rightarrow> js_error + jsval" where
  "huggingFace_retry fetched =
     (case fetched of
        Rejected e \<Rightarrow> Inl e
      | Resolved corsResponse \<Rightarrow>
          if \<not> ok corsResponse
          then Inl (Error (''HTTP '' @ show_nat (status corsResponse)))
          else (case json corsResponse of
                  Inl e \<Rightarrow> Inl e
                | Inr corsData \<Rightarrow> salvage corsData))"

definition sendHuggingFaceChat :: "env \<Rightarrow> string \<Rightarrow> chat_message list \<Rightarrow> string \<Rightarrow> outcome" where
  "sendHuggingFaceChat env model messages apiKey =
     (let req = huggingFace_request model messages apiKey
      in case huggingFace_try (fetch env req) of
           Inr reply \<Rightarrow> ([req], Inr reply)
         | Inl error \<Rightarrow>
             if name error = ''TypeError'' \<and> str_includes (message error) ''CORS''
             then
               (let corsReq = req\<lparr>url := withCors (url req)\<rparr>
                in case huggingFace_retry (fetch env corsReq) of
                     Inr reply \<Rightarrow> ([req, corsReq], Inr reply)
                   | Inl corsError \<Rightarrow>
                       ([req, corsReq],
                        Inl (Error ''CORS error - HuggingFace may require API key or try different model'')))
             else ([req], Inl error))"

subsection \<open>sendLocalChat\<close>

definition local_request :: "string \<Rightarrow> chat_message list \<Rightarrow> string \<Rightarrow> request" where
  "local_request model messages endpoint =
     \<lparr>url = (if endpoint = [] then ''http://localhost:11434/api/chat'' else endpoint),
      http_method = ''POST'',
      headers = [(''Content-Type'', ''application/json'')],
      body = OllamaChat model messages\<rparr>"

definition local_try :: "string \<Rightarrow> fetch_outcome \<Rightarrow> js_error + jsval" where
  "local_try model fetched =
     (case fetched of
        Rejected e \<Rightarrow> Inl e
      | Resolved response \<Rightarrow>
          if \<not> ok response
          then Inl (Error (''Ollama server error: HTTP '' @ show_nat (status response)
                           @ ''. Make sure Ollama is running and model '' @ quoted model
                           @ '' is installed.''))
          else (case json response of
                  Inl e \<Rightarrow> Inl e
                | Inr data \<Rightarrow>
                    (case get_prop data ''message'' of
                       Inl e \<Rightarrow> Inl e
                     | Inr m \<Rightarrow>
                         if \<not> truthy m then Inl (Error ''Invalid response format from Ollama'')
                         else (case get_prop m ''content'' of
                                 Inl e \<Rightarrow> Inl e
                               | Inr c \<Rightarrow>
                                   if truthy c then call_trim ''data.message.content.trim'' c
                                   else Inl (Error ''Invalid response format from Ollama'')))))"

definition sendLocalChat :: "env \<Rightarrow> string \<Rightarrow> chat_message list \<Rightarrow> string \<Rightarrow> outcome" where
  "sendLocalChat env model messages endpoint =
     (let req = local_request model messages endpoint
      in case local_try model (fetch env req) of
           Inr reply \<Rightarrow> ([req], Inr reply)
         | Inl error \<Rightarrow>
             if name error = ''TypeError''
                \<and> (str_includes (message error) ''Failed to fetch''
                    \<or> str_includes (message error) ''CORS'')
             then ([req],
                   Inl (Error ''Cannot connect to Ollama server. Make sure Ollama is running on the specified endpoint and CORS is enabled.''))
             else ([req], Inl error))"

subsection \<open>sendChat\<close>

text \<open>
  The two last parameters have the default \<^verbatim>\<open>''\<close>: \<open>None\<close> is the argument left out.
  What the \<^verbatim>\<open>catch\<close> writes to the console is not part of the result.
\<close>

definition default_empty :: "string option \<Rightarrow> string" where
  "default_empty arg = (case arg of None \<Rightarrow> [] | Some s \<Rightarrow> s)"

definition sendChat ::
  "env \<Rightarrow> string \<Rightarrow> string \<Rightarrow> chat_message list \<Rightarrow> string option \<Rightarrow> string option \<Rightarrow> outcome" where
  "sendChat env provider model messages apiKey localEndpoint =
     (case (if provider = ''openrouter''
              then sendOpenRouterChat env model messages (default_empty apiKey)
            else if provider = ''huggingface''
              then sendHuggingFaceChat env model messages (default_empty apiKey)
            else if provider = ''local''
              then sendLocalChat env model messages (default_empty localEndpoint)
            else ([], Inl (Error (''Unsupported provider: '' @ provider)))) of
        (requests, Inr reply) \<Rightarrow> (requests, Inr reply)
      | (requests, Inl error) \<Rightarrow>
          (requests, Inl (Error (''AI request failed: '' @ message error))))"

section \<open>The inlined copy: the AIProviders object of the UI controller\<close>

text \<open>
  The UI controller carries its own copy of the gateway, as the methods of the object
  \<^verbatim>\<open>AIProviders\<close>, and calls it as \<^verbatim>\<open>AIProviders.sendChat(...)\<close>, so \<^verbatim>\<open>this\<close> is that
  object in every method. Each method is transcribed here from its own text, statement
  by statement, without the auxiliary definitions of the section above: for each method
  its \<^verbatim>\<open>try\<close> block, the \<^verbatim>\<open>try\<close> block of its \<^verbatim>\<open>catch\<close> where there is one, and the
  method itself.
\<close>

definition AIProviders_withCors :: "string \<Rightarrow> string" where
  "AIProviders_withCors u = ''https://api.allorigins.win/raw?url='' @ encodeURIComponent u"

subsection \<open>AIProviders.sendOpenRouterChat\<close>

definition AIProviders_openRouter_try :: "fetch_outcome \<Rightarrow> js_error + jsval" where
  "AIProviders_openRouter_try fetched =
     (case fetched of
        Rejected e \<Rightarrow> Inl e
      | Resolved response \<Rightarrow>
          if \<not> ok response then
            (case (case json response of
                     Inl rejected \<Rightarrow> get_prop (JObj [(''error'', JStr ''Unknown error'')]) ''error''
                   | Inr error \<Rightarrow> get_prop error ''error'') of
               Inl e \<Rightarrow> Inl e
             | Inr inner \<Rightarrow>
                 if truthy (opt_prop inner ''message'')
                 then (case to_string (opt_prop inner ''message'') of
                         Inl e \<Rightarrow> Inl e
                       | Inr s \<Rightarrow> Inl (Error s))
                 else Inl (Error (''HTTP '' @ show_nat (status response))))
          else
            (case json response of
               Inl e \<Rightarrow> Inl e
             | Inr data \<Rightarrow>
                 (case get_prop data ''choices'' of
                    Inl e \<Rightarrow> Inl e
                  | Inr choices \<Rightarrow>
                      if \<not> truthy choices
                      then Inl (Error ''Invalid response format from OpenRouter'')
                      else
                        (case get_index0 choices of
                           Inl e \<Rightarrow> Inl e
                         | Inr choice \<Rightarrow>
                             if \<not> truthy choice
                             then Inl (Error ''Invalid response format from OpenRouter'')
                             else
                               (case get_prop choice ''message'' of
                                  Inl e \<Rightarrow> Inl e
                                | Inr m \<Rightarrow> get_prop m ''content'')))))"

definition AIProviders_openRouter_retry :: "fetch_outcome \<Rightarrow> js_error + jsval" where
  "AIProviders_openRouter_retry fetched =
     (case fetched of
        Rejected e \<Rightarrow> Inl e
      | Resolved corsResponse \<Rightarrow>
          if \<not> ok corsResponse
          then Inl (Error (''HTTP '' @ show_nat (status corsResponse)))
          else
            (case json corsResponse of
               Inl e \<Rightarrow> Inl e
             | Inr corsData \<Rightarrow>
                 (case get_prop corsData ''choices'' of
                    Inl e \<Rightarrow> Inl e
                  | Inr choices \<Rightarrow>
                      (case get_index0 choices of
                         Inl e \<Rightarrow> Inl e
                       | Inr choice \<Rightarrow>
                           (case get_prop choice ''message'' of
                              Inl e \<Rightarrow> Inl e
                            | Inr m \<Rightarrow> get_prop m ''content'')))))"

definition AIProviders_sendOpenRouterChat ::
  "env \<Rightarrow> string \<Rightarrow> chat_message list \<Rightarrow> string \<Rightarrow> outcome" where
  "AIProviders_sendOpenRouterChat env model messages apiKey =
     (if apiKey = [] then ([], Inl (Error ''OpenRouter API key is required''))
      else
        (let u = ''https://openrouter.ai/api/v1/chat/completions'';
             payload = ChatCompletions model messages;
             hs = [(''Content-Type'', ''application/json''),
                   (''Authorization'', ''Bearer '' @ apiKey),
                   (''HTTP-Referer'', origin env),
                   (''X-Title'', ''AgentForge Lite'')];
             req = \<lparr>url = u, http_method = ''POST'', headers = hs, body = payload\<rparr>;
             corsReq = \<lparr>url = AIProviders_withCors u, http_method = ''POST'', headers = hs,
                        body = payload\<rparr>
         in case AIProviders_openRouter_try (fetch env req) of
              Inr reply \<Rightarrow> ([req], Inr reply)
            | Inl error \<Rightarrow>
                if name error = ''TypeError'' \<and> str_includes (message error) ''CORS''
                then
                  (case AIProviders_openRouter_retry (fetch env corsReq) of
                     Inr reply \<Rightarrow> ([req, corsReq], Inr reply)
                   | Inl corsError \<Rightarrow>
                       ([req, corsReq],
                        Inl (Error ''CORS error - try enabling browser CORS extension or use different provider'')))
                else ([req], Inl error)))"

subsection \<open>AIProviders.sendHuggingFaceChat\<close>

definition AIProviders_huggingFace_try :: "fetch_outcome \<Rightarrow> js_error + jsval" where
  "AIProviders_huggingFace_try fetched =
     (case fetched of
        Rejected e \<Rightarrow> Inl e
      | Resolved response \<Rightarrow>
          if \<not> ok response then
            (case (case json response of
                     Inl rejected \<Rightarrow> get_prop (JObj [(''error'', JStr ''Unknown error'')]) ''error''
                   | Inr error \<Rightarrow> get_prop error ''error'') of
               Inl e \<Rightarrow> Inl e
             | Inr inner \<Rightarrow>
                 if truthy (opt_prop inner ''message'')
                 then (case to_string (opt_prop inner ''message'') of
                         Inl e \<Rightarrow> Inl e
                       | Inr s \<Rightarrow> Inl (Error s))
                 else Inl (Error (''HTTP '' @ show_nat (status response)
                                  @ '' - Model may be loading, try again in a moment'')))
          else
            (case json response of
               Inl e \<Rightarrow> Inl e
             | Inr data \<Rightarrow>
                 (case data of
                    JArr elems \<Rightarrow>
                      (case get_index0 data of
                         Inl e \<Rightarrow> Inl e
                       | Inr first \<Rightarrow>
                           if truthy (opt_prop first ''generated_text'')
                           then (case get_prop first ''generated_text'' of
                                   Inl e \<Rightarrow> Inl e
                                 | Inr g \<Rightarrow> call_trim ''data[0].generated_text.trim'' g)
                           else (case get_prop data ''generated_text'' of
                                   Inl e \<Rightarrow> Inl e
                                 | Inr g \<Rightarrow>
                                     if truthy g then call_trim ''data.generated_text.trim'' g
                                     else Inl (Error ''Invalid response format from HuggingFace'')))
                  | _ \<Rightarrow>
                      (case get_prop data ''generated_text'' of
                         Inl e \<Rightarrow> Inl e
                       | Inr g \<Rightarrow>
                           if truthy g then call_trim ''data.generated_text.trim'' g
                           else Inl (Error ''Invalid response format from HuggingFace'')))))"

definition AIProviders_huggingFace_retry :: "fetch_outcome \<Rightarrow> js_error + jsval" where
  "AIProviders_huggingFace_retry fetched =
     (case fetched of
        Rejected e \<Rightarrow> Inl e
      | Resolved corsResponse \<Rightarrow>
          if \<not> ok corsResponse
          then Inl (Error (''HTTP '' @ show_nat (status corsResponse)))
          else
            (case json corsResponse of
               Inl e \<Rightarrow> Inl e
             | Inr corsData \<Rightarrow>
                 (case get_index0 corsData of
                    Inl e \<Rightarrow> Inl e
                  | Inr first \<Rightarrow>
                      (case (if nullish first \<or> nullish (opt_prop first ''generated_text'')
                             then Inr JUndefined
                             else call_trim ''corsData[0]?.generated_text?.trim''
                                    (opt_prop first ''generated_text'')) of
                         Inl e \<Rightarrow> Inl e
                       | Inr a \<Rightarrow>
                           if truthy a then Inr a
                           else
                             (case get_prop corsData ''generated_text'' of
                                Inl e \<Rightarrow> Inl e
                              | Inr g \<Rightarrow>
                                  (case (if nullish g then Inr JUndefined
                                         else call_trim ''corsData.generated_text?.trim'' g) of
                                     Inl e \<Rightarrow> Inl e
                                   | Inr b \<Rightarrow>
                                       if truthy b then Inr b
                                       else Inr (JStr ''No response generated'')))))))"

definition AIProviders_sendHuggingFaceChat ::
  "env \<Rightarrow> string \<Rightarrow> chat_message list \<Rightarrow> string \<Rightarrow> outcome" where
  "AIProviders_sendHuggingFaceChat env model messages apiKey =
     (let u = ''https://api-inference.huggingface.co/models/'' @ model;
          prompt =
            js_join ''\<newline>''
              (map (\<lambda>msg.
                      if role msg = ''system'' then ''System: '' @ content msg
                      else if role msg = ''user'' then ''User: '' @ content msg
                      else if role msg = ''assistant'' then ''Assistant: '' @ content msg
                      else content msg)
                   messages)
            @ ''\<newline>Assistant:'';
          payload = TextGeneration prompt;
          hs = (if apiKey \<noteq> []
                then [(''Content-Type'', ''application/json''),
                      (''Authorization'', ''Bearer '' @ apiKey)]
                else [(''Content-Type'', ''application/json'')]);
          req = \<lparr>url = u, http_method = ''POST'', headers = hs, body = payload\<rparr>;
          corsReq = \<lparr>url = AIProviders_withCors u, http_method = ''POST'', headers = hs,
                     body = payload\<rparr>
      in case AIProviders_huggingFace_try (fetch env req) of
           Inr reply \<Rightarrow> ([req], Inr reply)
         | Inl error \<Rightarrow>
             if name error = ''TypeError'' \<and> str_includes (message error) ''CORS''
             then
               (case AIProviders_huggingFace_retry (fetch env corsReq) of
                  Inr reply \<Rightarrow> ([req, corsReq], Inr reply)
                | Inl corsError \<Rightarrow>
                    ([req, corsReq],
                     Inl (Error ''CORS error - HuggingFace may require API key or try different model'')))
             else ([req], Inl error))"

subsection \<open>AIProviders.sendLocalChat\<close>

definition AIProviders_local_try :: "string \<Rightarrow> fetch_outcome \<Rightarrow> js_error + jsval" where
  "AIProviders_local_try model fetched =
     (case fetched of
        Rejected e \<Rightarrow> Inl e
      | Resolved response \<Rightarrow>
          if \<not> ok response
          then Inl (Error (''Ollama server error: HTTP '' @ show_nat (status response)
                           @ ''. Make sure Ollama is running and model '' @ quoted model
                           @ '' is installed.''))
          else
            (case json response of
               Inl e \<Rightarrow> Inl e
             | Inr data \<Rightarrow>
                 (case get_prop data ''message'' of
                    Inl e \<Rightarrow> Inl e
                  | Inr m \<Rightarrow>
                      if truthy m then
                        (case get_prop m ''content'' of
                           Inl e \<Rightarrow> Inl e
                         | Inr c \<Rightarrow>
                             if truthy c then call_trim ''data.message.content.trim'' c
                             else Inl (Error ''Invalid response format from Ollama''))
                      else Inl (Error ''Invalid response format from Ollama''))))"

definition AIProviders_sendLocalChat ::
  "env \<Rightarrow> string \<Rightarrow> chat_message list \<Rightarrow> string \<Rightarrow> outcome" where
  "AIProviders_sendLocalChat env model messages endpoint =
     (let endpoint' = (if endpoint = [] then ''http://localhost:11434/api/chat'' else endpoint);
          payload = OllamaChat model messages;
          req = \<lparr>url = endpoint', http_method = ''POST'',
                 headers = [(''Content-Type'', ''application/json'')], body = payload\<rparr>
      in case AIProviders_local_try model (fetch env req) of
           Inr reply \<Rightarrow> ([req], Inr reply)
         | Inl error \<Rightarrow>
             if name error = ''TypeError''
                \<and> (str_includes (message error) ''Failed to fetch''
                    \<or> str_includes (message error) ''CORS'')
             then ([req],
                   Inl (Error ''Cannot connect to Ollama server. Make sure Ollama is running on the specified endpoint and CORS is enabled.''))
             else ([req], Inl error))"

subsection \<open>AIProviders.sendChat\<close>

definition AIProviders_sendChat ::
  "env \<Rightarrow> string \<Rightarrow> string \<Rightarrow> chat_message list \<Rightarrow> string option \<Rightarrow> string option \<Rightarrow> outcome" where
  "AIProviders_sendChat env provider model messages apiKey localEndpoint =
     (let apiKey' = (case apiKey of None \<Rightarrow> [] | Some k \<Rightarrow> k);
          localEndpoint' = (case localEndpoint of None \<Rightarrow> [] | Some l \<Rightarrow> l);
          (requests, settled) =
            (if provider = ''openrouter'' then AIProviders_sendOpenRouterChat env model messages apiKey'
             else if provider = ''huggingface'' then AIProviders_sendHuggingFaceChat env model messages apiKey'
             else if provider = ''local'' then AIProviders_sendLocalChat env model messages localEndpoint'
             else ([], Inl (Error (''Unsupported provider: '' @ provider))))
      in (requests,
          (case settled of
             Inl error \<Rightarrow> Inl (Error (''AI request failed: '' @ message error))
           | Inr reply \<Rightarrow> Inr reply)))"

section \<open>What the specification documents\<close>

text \<open>
  The success shapes of the three remote interfaces, in the specification's words:
  the hosted router answers \<^verbatim>\<open>{choices: [{message: {content: text}}], ...}\<close>, the
  inference host an array of \<^verbatim>\<open>{generated_text}\<close> or a single \<^verbatim>\<open>{generated_text}\<close>
  object, the local server \<^verbatim>\<open>{message: {content: text}}\<close>. Each function gives the
  text of a body of that shape, and \<open>None\<close> for a body of another shape.
\<close>

fun openrouter_text :: "jsval \<Rightarrow> string option" where
  "openrouter_text (JObj props) =
     (case map_of props ''choices'' of
        Some (JArr (JObj choice # others)) \<Rightarrow>
          (case map_of choice ''message'' of
             Some (JObj m) \<Rightarrow>
               (case map_of m ''content'' of Some (JStr t) \<Rightarrow> Some t | _ \<Rightarrow> None)
           | _ \<Rightarrow> None)
      | _ \<Rightarrow> None)"
| "openrouter_text v = None"

fun huggingface_text :: "jsval \<Rightarrow> string option" where
  "huggingface_text (JArr (JObj first # others)) =
     (case map_of first ''generated_text'' of Some (JStr t) \<Rightarrow> Some t | _ \<Rightarrow> None)"
| "huggingface_text (JObj props) =
     (case map_of props ''generated_text'' of Some (JStr t) \<Rightarrow> Some t | _ \<Rightarrow> None)"
| "huggingface_text v = None"

fun local_text :: "jsval \<Rightarrow> string option" where
  "local_text (JObj props) =
     (case map_of props ''message'' of
        Some (JObj m) \<Rightarrow>
          (case map_of m ''content'' of Some (JStr t) \<Rightarrow> Some t | _ \<Rightarrow> None)
      | _ \<Rightarrow> None)"
| "local_text v = None"

text \<open>
  The prompt of the inference host, in the specification's words: each message becomes
  a line \<^verbatim>\<open><RoleLabel>: <content>\<close>, a role without a label is passed through as the
  raw content, the lines are joined with a newline, and \<^verbatim>\<open>\nAssistant:\<close> follows.
\<close>

definition role_label :: "string \<Rightarrow> string option" where
  "role_label r =
     map_of [(''system'', ''System''), (''user'', ''User''), (''assistant'', ''Assistant'')] r"

definition spec_line :: "chat_message \<Rightarrow> string" where
  "spec_line msg =
     (case role_label (role msg) of
        Some label \<Rightarrow> label @ '': '' @ content msg
      | None \<Rightarrow> content msg)"

fun newline_joined :: "string list \<Rightarrow> string" where
  "newline_joined [] = []"
| "newline_joined [l] = l"
| "newline_joined (l # m # ls) = l @ ''\<newline>'' @ newline_joined (m # ls)"

definition spec_prompt :: "chat_message list \<Rightarrow> string" where
  "spec_prompt messages = newline_joined (map spec_line messages) @ ''\<newline>Assistant:''"

text \<open>
  A generated-text the salvage of the proxy's body cannot use: it is missing
  (\<^verbatim>\<open>undefined\<close> or \<^verbatim>\<open>null\<close>), or it is a string that is empty once trimmed.
\<close>

fun unusable :: "jsval \<Rightarrow> bool" where
  "unusable JUndefined = True"
| "unusable JNull = True"
| "unusable (JStr s) = (trim s = [])"
| "unusable v = False"

section \<open>Environments to run the gateway in\<close>

text \<open>
  Three behaviours of \<^verbatim>\<open>fetch\<close>: a network that is down, a server that answers every
  request with one status and one parsed body, and a browser that blocks the direct
  request while the proxy answers.
\<close>

definition offline :: env where
  "offline =
     \<lparr>fetch = (\<lambda>r. Rejected (TypeError ''Failed to fetch'')),
      origin = ''http://localhost:8000''\<rparr>"

definition answering :: "nat \<Rightarrow> jsval \<Rightarrow> env" where
  "answering code parsed =
     \<lparr>fetch = (\<lambda>r. Resolved \<lparr>status = code, json = Inr parsed\<rparr>),
      origin = ''http://localhost:8000''\<rparr>"

definition behind_cors :: "nat \<Rightarrow> jsval \<Rightarrow> env" where
  "behind_cors code parsed =
     \<lparr>fetch = (\<lambda>r. if is_prefix ''https://api.allorigins.win/'' (url r)
                   then Resolved \<lparr>status = code, json = Inr parsed\<rparr>
                   else Rejected (TypeError ''Blocked by CORS policy'')),
      origin = ''http://localhost:8000''\<rparr>"

section \<open>Auxiliary lemmas\<close>

subsection \<open>The two copies, block by block\<close>

lemma withCors_same: "AIProviders_withCors u = withCors u"
  by (simp add: AIProviders_withCors_def withCors_def)

lemma remote_error_inline:
  "(case (case json response of
            Inl rejected \<Rightarrow> get_prop (JObj [(''error'', JStr ''Unknown error'')]) ''error''
          | Inr error \<Rightarrow> get_prop error ''error'') of
      Inl e \<Rightarrow> Inl e
    | Inr inner \<Rightarrow>
        if truthy (opt_prop inner ''message'')
        then (case to_string (opt_prop inner ''message'') of
                Inl e \<Rightarrow> Inl e
              | Inr s \<Rightarrow> Inl (Error s))
        else Inl (Error fallback))
   = (Inl (throw_remote_error response fallback) :: js_error + jsval)"
  by (auto simp: throw_remote_error_def Let_def own_prop_def split: sum.splits)

lemma openRouter_try_same: "AIProviders_openRouter_try fetched = openRouter_try fetched"
  unfolding AIProviders_openRouter_try_def openRouter_try_def remote_error_inline
    choices0_message_content_def
  by (simp split: fetch_outcome.split sum.split)

lemma openRouter_retry_same: "AIProviders_openRouter_retry fetched = openRouter_retry fetched"
  by (simp add: AIProviders_openRouter_retry_def openRouter_retry_def choices0_message_content_def
      split: fetch_outcome.split sum.split)

lemma sendOpenRouterChat_same:
  "AIProviders_sendOpenRouterChat env model messages apiKey
   = sendOpenRouterChat env model messages apiKey"
proof -
  define req where "req = openRouter_request env model messages apiKey"
  have hs: "[(''Content-Type'', ''application/json''), (''Authorization'', ''Bearer '' @ apiKey),
             (''HTTP-Referer'', origin env), (''X-Title'', ''AgentForge Lite'')] = headers req"
    by (simp add: req_def openRouter_request_def)
  have first: "\<lparr>url = ''https://openrouter.ai/api/v1/chat/completions'', http_method = ''POST'',
                 headers = headers req, body = ChatCompletions model messages\<rparr> = req"
    by (simp add: req_def openRouter_request_def)
  have second: "\<lparr>url = withCors ''https://openrouter.ai/api/v1/chat/completions'',
                  http_method = ''POST'', headers = headers req,
                  body = ChatCompletions model messages\<rparr> = req\<lparr>url := withCors (url req)\<rparr>"
    by (simp add: req_def openRouter_request_def)
  show ?thesis
    unfolding AIProviders_sendOpenRouterChat_def sendOpenRouterChat_def Let_def
      openRouter_try_same openRouter_retry_same withCors_same hs first second req_def [symmetric]
    by (rule refl)
qed

lemma generated_text_inline:
  "(case data of
      JArr elems \<Rightarrow>
        (case get_index0 data of
           Inl e \<Rightarrow> Inl e
         | Inr first \<Rightarrow>
             if truthy (opt_prop first ''generated_text'')
             then (case get_prop first ''generated_text'' of
                     Inl e \<Rightarrow> Inl e
                   | Inr g \<Rightarrow> call_trim ''data[0].generated_text.trim'' g)
             else (case get_prop data ''generated_text'' of
                     Inl e \<Rightarrow> Inl e
                   | Inr g \<Rightarrow>
                       if truthy g then call_trim ''data.generated_text.trim'' g
                       else Inl (Error ''Invalid response format from HuggingFace'')))
    | _ \<Rightarrow>
        (case get_prop data ''generated_text'' of
           Inl e \<Rightarrow> Inl e
         | Inr g \<Rightarrow>
             if truthy g then call_trim ''data.generated_text.trim'' g
             else Inl (Error ''Invalid response format from HuggingFace'')))
   = (case first_generated_text data of
        Inl e \<Rightarrow> Inl e
      | Inr True \<Rightarrow>
          (case get_index0 data of
             Inl e \<Rightarrow> Inl e
           | Inr first \<Rightarrow>
               (case get_prop first ''generated_text'' of
                  Inl e \<Rightarrow> Inl e
                | Inr g \<Rightarrow> call_trim ''data[0].generated_text.trim'' g))
      | Inr False \<Rightarrow>
          (case get_prop data ''generated_text'' of
             Inl e \<Rightarrow> Inl e
           | Inr g \<Rightarrow>
               if truthy g then call_trim ''data.generated_text.trim'' g
               else Inl (Error ''Invalid response format from HuggingFace'')))"
proof (cases data)
  case (JArr xs)
  then show ?thesis
    by (cases xs) (simp_all add: first_generated_text_def is_array_def)
qed (simp_all add: first_generated_text_def is_array_def)

lemma huggingFace_try_same: "AIProviders_huggingFace_try fetched = huggingFace_try fetched"
  unfolding AIProviders_huggingFace_try_def huggingFace_try_def remote_error_inline
    generated_text_inline
  by (rule refl)

lemma huggingFace_retry_same: "AIProviders_huggingFace_retry fetched = huggingFace_retry fetched"
proof (cases fetched)
  case (Rejected e)
  then show ?thesis by (simp add: AIProviders_huggingFace_retry_def huggingFace_retry_def)
next
  case (Resolved r)
  then show ?thesis
    by (auto simp add: AIProviders_huggingFace_retry_def huggingFace_retry_def salvage_def
        opt_call_trim_def split: sum.splits)
qed

lemma sendHuggingFaceChat_same:
  "AIProviders_sendHuggingFaceChat env model messages apiKey
   = sendHuggingFaceChat env model messages apiKey"
proof -
  define req where "req = huggingFace_request model messages apiKey"
  have prompt:
    "js_join ''\<newline>''
       (map (\<lambda>msg.
               if role msg = ''system'' then ''System: '' @ content msg
               else if role msg = ''user'' then ''User: '' @ content msg
               else if role msg = ''assistant'' then ''Assistant: '' @ content msg
               else content msg)
            messages)
     @ ''\<newline>Assistant:'' = huggingFace_prompt messages"
    by (simp add: huggingFace_prompt_def prompt_line_def [abs_def])
  have hs: "(if apiKey \<noteq> []
             then [(''Content-Type'', ''application/json''), (''Authorization'', ''Bearer '' @ apiKey)]
             else [(''Content-Type'', ''application/json'')]) = headers req"
    by (simp add: req_def huggingFace_request_def)
  have first: "\<lparr>url = ''https://api-inference.huggingface.co/models/'' @ model,
                 http_method = ''POST'', headers = headers req,
                 body = TextGeneration (huggingFace_prompt messages)\<rparr> = req"
    by (simp add: req_def huggingFace_request_def)
  have second: "\<lparr>url = withCors (''https://api-inference.huggingface.co/models/'' @ model),
                  http_method = ''POST'', headers = headers req,
                  body = TextGeneration (huggingFace_prompt messages)\<rparr>
                = req\<lparr>url := withCors (url req)\<rparr>"
    by (simp add: req_def huggingFace_request_def)
  show ?thesis
    unfolding AIProviders_sendHuggingFaceChat_def sendHuggingFaceChat_def Let_def
      huggingFace_try_same huggingFace_retry_same withCors_same prompt hs first second
      req_def [symmetric]
    by (rule refl)
qed

lemma local_try_same: "AIProviders_local_try model fetched = local_try model fetched"
  by (simp add: AIProviders_local_try_def local_try_def split: fetch_outcome.split sum.split)

lemma sendLocalChat_same:
  "AIProviders_sendLocalChat env model messages endpoint
   = sendLocalChat env model messages endpoint"
  unfolding AIProviders_sendLocalChat_def sendLocalChat_def Let_def local_try_same
    local_request_def
  by (rule refl)

subsection \<open>Joining lines\<close>

lemma foldl_join:
  "foldl (\<lambda>r e. r @ sep @ e) (a @ x) rest = a @ foldl (\<lambda>r e. r @ sep @ e) x rest"
  by (induction rest arbitrary: x) simp_all

lemma js_join_newline: "js_join ''\<newline>'' ls = newline_joined ls"
proof (induction ls rule: newline_joined.induct)
  case 1
  show ?case by (simp add: js_join_def)
next
  case (2 l)
  show ?case by (simp add: js_join_def)
next
  case (3 l m ls)
  have "js_join ''\<newline>'' (l # m # ls)
        = foldl (\<lambda>r e. r @ ''\<newline>'' @ e) ((l @ ''\<newline>'') @ m) ls"
    by (simp add: js_join_def)
  also have "\<dots> = (l @ ''\<newline>'') @ foldl (\<lambda>r e. r @ ''\<newline>'' @ e) m ls"
    by (rule foldl_join)
  also have "\<dots> = l @ ''\<newline>'' @ js_join ''\<newline>'' (m # ls)"
    by (simp add: js_join_def)
  finally show ?case using 3 by simp
qed

lemma prompt_line_spec: "prompt_line = spec_line"
  by (rule ext) (simp add: prompt_line_def spec_line_def role_label_def)

subsection \<open>Bodies of the documented shapes\<close>

lemma openrouter_text_content:
  assumes "openrouter_text data = Some t"
  shows "\<exists>choices choice. get_prop data ''choices'' = Inr choices \<and> truthy choices
           \<and> get_index0 choices = Inr choice \<and> truthy choice
           \<and> choices0_message_content data = Inr (JStr t)"
  using assms
  by (cases data rule: openrouter_text.cases)
     (auto simp: choices0_message_content_def own_prop_def
           split: option.splits jsval.splits list.splits)

lemma openRouter_try_text:
  assumes "ok response" "json response = Inr data" "openrouter_text data = Some t"
  shows "openRouter_try (Resolved response) = Inr (JStr t)"
proof -
  from openrouter_text_content [OF assms(3)] obtain choices choice where
    "get_prop data ''choices'' = Inr choices" "truthy choices"
    "get_index0 choices = Inr choice" "truthy choice"
    "choices0_message_content data = Inr (JStr t)"
    by blast
  with assms(1,2) show ?thesis by (simp add: openRouter_try_def)
qed

lemma huggingFace_try_text:
  assumes "ok response" "json response = Inr data" "huggingface_text data = Some t" "t \<noteq> []"
  shows "huggingFace_try (Resolved response) = Inr (JStr (trim t))"
  using assms
  by (cases data rule: huggingface_text.cases)
     (auto simp: huggingFace_try_def first_generated_text_def is_array_def own_prop_def
           split: option.splits jsval.splits)

lemma huggingFace_try_empty_text:
  assumes "ok response" "json response = Inr data" "huggingface_text data = Some []"
  shows "huggingFace_try (Resolved response) = Inl (Error ''Invalid response format from HuggingFace'')"
  using assms
  by (cases data rule: huggingface_text.cases)
     (auto simp: huggingFace_try_def first_generated_text_def is_array_def own_prop_def
           split: option.splits jsval.splits)

lemma local_try_text:
  assumes "ok response" "json response = Inr data" "local_text data = Some t" "t \<noteq> []"
  shows "local_try model (Resolved response) = Inr (JStr (trim t))"
  using assms
  by (cases data rule: local_text.cases)
     (auto simp: local_try_def own_prop_def split: option.splits jsval.splits)

lemma local_try_empty_text:
  assumes "ok response" "json response = Inr data" "local_text data = Some []"
  shows "local_try model (Resolved response) = Inl (Error ''Invalid response format from Ollama'')"
  using assms
  by (cases data rule: local_text.cases)
     (auto simp: local_try_def own_prop_def split: option.splits jsval.splits)


subsection \<open>The dispatch of sendChat\<close>

lemma rewrap:
  "(case x of (requests, Inr reply) \<Rightarrow> (requests, Inr reply)
    | (requests, Inl error) \<Rightarrow> (requests, Inl (Error (''AI request failed: '' @ message error))))
   = (fst x, (case snd x of Inl error \<Rightarrow> Inl (Error (''AI request failed: '' @ message error))
                | Inr reply \<Rightarrow> Inr reply))"
  by (cases x) (simp split: sum.split)

lemma sendChat_openrouter:
  "sendChat env ''openrouter'' model messages apiKey localEndpoint =
     (case sendOpenRouterChat env model messages (default_empty apiKey) of
        (requests, Inr reply) \<Rightarrow> (requests, Inr reply)
      | (requests, Inl error) \<Rightarrow>
          (requests, Inl (Error (''AI request failed: '' @ message error))))"
  by (simp add: sendChat_def)

lemma sendChat_huggingface:
  "sendChat env ''huggingface'' model messages apiKey localEndpoint =
     (case sendHuggingFaceChat env model messages (default_empty apiKey) of
        (requests, Inr reply) \<Rightarrow> (requests, Inr reply)
      | (requests, Inl error) \<Rightarrow>
          (requests, Inl (Error (''AI request failed: '' @ message error))))"
  by (simp add: sendChat_def)

lemma sendChat_local:
  "sendChat env ''local'' model messages apiKey localEndpoint =
     (case sendLocalChat env model messages (default_empty localEndpoint) of
        (requests, Inr reply) \<Rightarrow> (requests, Inr reply)
      | (requests, Inl error) \<Rightarrow>
          (requests, Inl (Error (''AI request failed: '' @ message error))))"
  by (simp add: sendChat_def)

subsection \<open>Where an empty reply can come from\<close>

lemma salvage_not_empty: "salvage corsData \<noteq> Inr (JStr [])"
  by (auto simp add: salvage_def opt_call_trim_def split: sum.splits if_splits)

lemma huggingFace_retry_not_empty: "huggingFace_retry fetched \<noteq> Inr (JStr [])"
  by (auto simp add: huggingFace_retry_def salvage_not_empty split: fetch_outcome.splits sum.splits if_splits)

lemma call_trim_empty:
  assumes "call_trim site g = Inr (JStr [])" and "truthy g"
  shows "\<exists>t. g = JStr t \<and> t \<noteq> [] \<and> trim t = []"
  using assms by (cases g) simp_all

lemma own_prop_JStr: "own_prop props k = JStr t \<Longrightarrow> map_of props k = Some (JStr t)"
  by (simp add: own_prop_def split: option.splits)

lemma opt_prop_JStr:
  "opt_prop v k = JStr t \<Longrightarrow> \<exists>props. v = JObj props \<and> map_of props k = Some (JStr t)"
  by (cases v) (simp_all add: own_prop_JStr)

lemma get_prop_JStr:
  "get_prop v k = Inr (JStr t) \<Longrightarrow> \<exists>props. v = JObj props \<and> map_of props k = Some (JStr t)"
  by (cases v) (simp_all add: own_prop_JStr)

lemma huggingFace_try_empty_reply:
  assumes "huggingFace_try fetched = Inr (JStr [])"
  shows "\<exists>response data t. fetched = Resolved response \<and> ok response \<and> json response = Inr data
           \<and> huggingface_text data = Some t \<and> t \<noteq> [] \<and> trim t = []"
proof (cases fetched)
  case (Rejected e)
  with assms show ?thesis by (simp add: huggingFace_try_def)
next
  case (Resolved response)
  with assms have ok: "ok response"
    by (auto simp add: huggingFace_try_def split: if_splits)
  with assms Resolved obtain data where data: "json response = Inr data"
    by (auto simp add: huggingFace_try_def split: sum.splits)
  have "\<exists>t. huggingface_text data = Some t \<and> t \<noteq> [] \<and> trim t = []"
  proof (cases "first_generated_text data")
    case (Inl e)
    with assms Resolved ok data show ?thesis by (simp add: huggingFace_try_def)
  next
    case (Inr b)
    show ?thesis
    proof (cases b)
      case True
      with Inr obtain first rest where arr: "data = JArr (first # rest)"
        and tr: "truthy (opt_prop first ''generated_text'')"
        by (cases data rule: get_index0.cases)
           (auto simp add: first_generated_text_def is_array_def)
      from tr obtain props where first: "first = JObj props"
        by (cases first) simp_all
      from assms Resolved ok data Inr True arr first
      have "call_trim ''data[0].generated_text.trim'' (own_prop props ''generated_text'') = Inr (JStr [])"
        by (simp add: huggingFace_try_def)
      with tr first obtain t where "own_prop props ''generated_text'' = JStr t" "t \<noteq> []" "trim t = []"
        using call_trim_empty by fastforce
      with arr first show ?thesis by (simp add: own_prop_JStr)
    next
      case False
      with assms Resolved ok data Inr obtain g where g: "get_prop data ''generated_text'' = Inr g"
        and "truthy g" and "call_trim ''data.generated_text.trim'' g = Inr (JStr [])"
        by (auto simp add: huggingFace_try_def split: sum.splits if_splits)
      then obtain t where "g = JStr t" "t \<noteq> []" "trim t = []"
        using call_trim_empty by blast
      with g show ?thesis by (auto dest: get_prop_JStr)
    qed
  qed
  with Resolved ok data show ?thesis by simp
qed

lemma local_try_empty_reply:
  assumes "local_try model fetched = Inr (JStr [])"
  shows "\<exists>response data t. fetched = Resolved response \<and> ok response \<and> json response = Inr data
           \<and> local_text data = Some t \<and> t \<noteq> [] \<and> trim t = []"
proof (cases fetched)
  case (Rejected e)
  with assms show ?thesis by (simp add: local_try_def)
next
  case (Resolved response)
  with assms have ok: "ok response"
    by (auto simp add: local_try_def split: if_splits)
  with assms Resolved obtain data where data: "json response = Inr data"
    by (auto simp add: local_try_def split: sum.splits)
  from assms Resolved ok data obtain m c where m: "get_prop data ''message'' = Inr m" "truthy m"
    and c: "get_prop m ''content'' = Inr c" "truthy c"
    and "call_trim ''data.message.content.trim'' c = Inr (JStr [])"
    by (auto simp add: local_try_def split: sum.splits if_splits)
  then obtain t where t: "c = JStr t" "t \<noteq> []" "trim t = []"
    using call_trim_empty by blast
  with c obtain mprops where mp: "m = JObj mprops" "map_of mprops ''content'' = Some (JStr t)"
    by (auto dest: get_prop_JStr)
  with m obtain props where "data = JObj props" "map_of props ''message'' = Some (JObj mprops)"
    by (cases data) (auto simp add: own_prop_def split: option.splits)
  with mp t have "local_text data = Some t \<and> t \<noteq> [] \<and> trim t = []" by simp
  with Resolved ok data show ?thesis by blast
qed

subsection \<open>The retry is another request\<close>

text \<open>
  The proxy's address is longer than the address it wraps, so the retry is never the
  request that was rejected: taking \<^verbatim>\<open>fetch\<close> as a function of the request leaves the
  answers to the two requests of one call independent.
\<close>

lemma encode_unit_length: "1 \<le> length (encode_unit c)"
  by (simp add: encode_unit_def percent_def)

lemma encodeURIComponent_length: "length u \<le> length (encodeURIComponent u)"
proof (induction u)
  case Nil
  show ?case by (simp add: encodeURIComponent_def)
next
  case (Cons c u)
  with encode_unit_length [of c] show ?case by (simp add: encodeURIComponent_def)
qed

lemma withCors_differs: "withCors u \<noteq> u"
proof
  assume "withCors u = u"
  then have "length (withCors u) = length u" by simp
  with encodeURIComponent_length [of u] show False by (simp add: withCors_def)
qed

lemma retry_request_differs: "req\<lparr>url := withCors (url req)\<rparr> \<noteq> (req :: request)"
proof
  assume "req\<lparr>url := withCors (url req)\<rparr> = req"
  then have "url (req\<lparr>url := withCors (url req)\<rparr>) = url req" by simp
  then show False by (simp add: withCors_differs)
qed

subsection \<open>What trim does\<close>

text \<open>
  \<open>trim\<close> removes a run of white space at each end and nothing else, and what is left
  neither starts nor ends with white space.
\<close>

lemma trim_decomposition:
  "\<exists>before after. s = before @ trim s @ after
     \<and> list_all is_space before \<and> list_all is_space after"
proof -
  let ?m = "dropWhile is_space s"
  have "s = takeWhile is_space s @ ?m" by simp
  moreover have "rev ?m = takeWhile is_space (rev ?m) @ dropWhile is_space (rev ?m)" by simp
  then have "?m = trim s @ rev (takeWhile is_space (rev ?m))"
    unfolding trim_def by (metis rev_append rev_rev_ident)
  moreover have "list_all is_space (takeWhile is_space s)"
    by (simp add: list_all_iff) (meson set_takeWhileD)
  moreover have "list_all is_space (rev (takeWhile is_space (rev ?m)))"
    by (simp add: list_all_iff) (meson set_takeWhileD)
  ultimately show ?thesis by metis
qed

lemma trim_ends:
  assumes "trim s \<noteq> []"
  shows "\<not> is_space (hd (trim s)) \<and> \<not> is_space (last (trim s))"
proof -
  let ?m = "dropWhile is_space s"
  let ?r = "dropWhile is_space (rev ?m)"
  from assms have r: "?r \<noteq> []" by (simp add: trim_def)
  then have "\<not> is_space (hd ?r)" by (rule hd_dropWhile)
  with r have last: "\<not> is_space (last (trim s))" by (simp add: trim_def last_rev)
  from r have m: "?m \<noteq> []" by (metis dropWhile.simps(1) rev.simps(1))
  then have hm: "\<not> is_space (hd ?m)" by (rule hd_dropWhile)
  have "rev ?m = takeWhile is_space (rev ?m) @ ?r" by simp
  then have "?m = trim s @ rev (takeWhile is_space (rev ?m))"
    unfolding trim_def by (metis rev_append rev_rev_ident)
  with assms have "hd ?m = hd (trim s)" by (metis hd_append2)
  with hm last show ?thesis by simp
qed

subsection \<open>Responses outside 2xx\<close>

text \<open>
  Where the body of a response outside 2xx does not parse, or parses to a value other
  than \<^verbatim>\<open>null\<close> whose \<^verbatim>\<open>error.message\<close> is missing, falsy or a string, the message of
  the failure holds that string or the status code. (The body \<^verbatim>\<open>null\<close> is the subject of
  C6 below.)
\<close>

lemma is_prefix_append: "is_prefix t (t @ s)"
  by (induction t) simp_all

lemma str_includes_append: "str_includes (a @ t @ b) t"
proof (induction a)
  case Nil
  show ?case
  proof (cases "t @ b")
    case Nil
    then show ?thesis by simp
  next
    case (Cons c cs)
    with is_prefix_append [of t b] show ?thesis by simp
  qed
next
  case (Cons c a)
  then show ?case by simp
qed

lemma throw_remote_error_unparsed:
  "json response = Inl rejected \<Longrightarrow> throw_remote_error response fallback = Error fallback"
  by (simp add: throw_remote_error_def own_prop_def)

lemma throw_remote_error_no_message:
  assumes "json response = Inr parsed" and "\<not> nullish parsed"
    and "\<not> truthy (opt_prop (opt_prop parsed ''error'') ''message'')"
  shows "throw_remote_error response fallback = Error fallback"
  using assms by (cases parsed) (simp_all add: throw_remote_error_def)

lemma throw_remote_error_message:
  assumes "json response = Inr parsed"
    and "opt_prop (opt_prop parsed ''error'') ''message'' = JStr m" and "m \<noteq> []"
  shows "throw_remote_error response fallback = Error m"
  using assms by (cases parsed) (simp_all add: throw_remote_error_def)

lemma non_2xx_reported:
  assumes "\<not> ok response"
    and "json response = Inl rejected
         \<or> (\<exists>parsed. json response = Inr parsed \<and> \<not> nullish parsed
               \<and> (\<not> truthy (opt_prop (opt_prop parsed ''error'') ''message'')
                  \<or> (\<exists>m. opt_prop (opt_prop parsed ''error'') ''message'' = JStr m 
                          \<and> remote = m)))"
  shows "(apiKey \<noteq> [] \<and> fetch env (openRouter_request env model messages apiKey) = Resolved response
          \<longrightarrow> (\<exists>said. sendChat env ''openrouter'' model messages (Some apiKey) localEndpoint
                        = ([openRouter_request env model messages apiKey], Inl (Error said))
                     \<and> (str_includes said remote \<or> str_includes said (show_nat (status response)))))
       \<and> (fetch env (huggingFace_request model messages (default_empty optKey)) = Resolved response
          \<longrightarrow> (\<exists>said. sendChat env ''huggingface'' model messages optKey localEndpoint
                        = ([huggingFace_request model messages (default_empty optKey)], Inl (Error said))
                     \<and> (str_includes said remote \<or> str_includes said (show_nat (status response)))))
       \<and> (fetch env (local_request model messages (default_empty localEndpoint)) = Resolved response
          \<longrightarrow> (\<exists>said. sendChat env ''local'' model messages optKey localEndpoint
                        = ([local_request model messages (default_empty localEndpoint)], Inl (Error said))
                     \<and> str_includes said (show_nat (status response))))"
proof -
  have thrown: "\<exists>said. throw_remote_error response (''HTTP '' @ show_nat (status response) @ rest) = Error said
       \<and> (str_includes (''AI request failed: '' @ said) remote
          \<or> str_includes (''AI request failed: '' @ said) (show_nat (status response)))" for rest
  proof -
    let ?fb = "''HTTP '' @ show_nat (status response) @ rest"
    have fb: "str_includes (''AI request failed: '' @ ?fb) (show_nat (status response))"
      using str_includes_append [of "''AI request failed: HTTP ''" "show_nat (status response)" rest]
      by simp
    from assms(2) consider "throw_remote_error response ?fb = Error ?fb"
      | m where "throw_remote_error response ?fb = Error m" "remote = m"
      using throw_remote_error_unparsed [of response _ ?fb]
        throw_remote_error_no_message [of response _ ?fb]
        throw_remote_error_message [of response _ _ ?fb]
      by (metis truthy.simps(5))
    then show ?thesis
    proof cases
      case 1
      with fb show ?thesis by blast
    next
      case (2 m)
      with str_includes_append [of "''AI request failed: ''" m "[]"] show ?thesis by auto
    qed
  qed
  show ?thesis
  proof (intro conjI impI)
    assume a: "apiKey \<noteq> [] \<and> fetch env (openRouter_request env model messages apiKey) = Resolved response"
    from thrown [of "[]"] obtain said where
      "throw_remote_error response (''HTTP '' @ show_nat (status response)) = Error said"
      "str_includes (''AI request failed: '' @ said) remote
          \<or> str_includes (''AI request failed: '' @ said) (show_nat (status response))"
      by auto
    with a assms(1)
    show "\<exists>said. sendChat env ''openrouter'' model messages (Some apiKey) localEndpoint
                        = ([openRouter_request env model messages apiKey], Inl (Error said))
                     \<and> (str_includes said remote \<or> str_includes said (show_nat (status response)))"
      by (simp add: sendChat_openrouter sendOpenRouterChat_def openRouter_try_def default_empty_def
          Error_def)
  next
    assume a: "fetch env (huggingFace_request model messages (default_empty optKey)) = Resolved response"
    from thrown [of "'' - Model may be loading, try again in a moment''"] obtain said where
      "throw_remote_error response (''HTTP '' @ show_nat (status response)
          @ '' - Model may be loading, try again in a moment'') = Error said"
      "str_includes (''AI request failed: '' @ said) remote
          \<or> str_includes (''AI request failed: '' @ said) (show_nat (status response))"
      by auto
    with a assms(1)
    show "\<exists>said. sendChat env ''huggingface'' model messages optKey localEndpoint
                        = ([huggingFace_request model messages (default_empty optKey)], Inl (Error said))
                     \<and> (str_includes said remote \<or> str_includes said (show_nat (status response)))"
      by (simp add: sendChat_huggingface sendHuggingFaceChat_def huggingFace_try_def Error_def)
  next
    assume a: "fetch env (local_request model messages (default_empty localEndpoint)) = Resolved response"
    have "str_includes (''AI request failed: Ollama server error: HTTP '' @ show_nat (status response)
            @ (''. Make sure Ollama is running and model '' @ quoted model @ '' is installed.''))
          (show_nat (status response))"
      by (rule str_includes_append)
    with a assms(1)
    show "\<exists>said. sendChat env ''local'' model messages optKey localEndpoint
                        = ([local_request model messages (default_empty localEndpoint)], Inl (Error said))
                     \<and> str_includes said (show_nat (status response))"
      by (simp add: sendChat_local sendLocalChat_def local_try_def Error_def)
  qed
qed

section \<open>The claims\<close>

text \<open>
  C2. For every message list, the prompt the huggingface adapter builds is the one the
  specification describes: each message a line with its role label (\<^verbatim>\<open>System\<close>,
  \<^verbatim>\<open>User\<close>, \<^verbatim>\<open>Assistant\<close>; the raw content for any other role), the lines joined
  with a single newline, and the suffix \<^verbatim>\<open>\nAssistant:\<close> appended.
\<close>

theorem huggingFace_prompt_spec: "huggingFace_prompt messages = spec_prompt messages"
  by (simp add: huggingFace_prompt_def spec_prompt_def js_join_newline prompt_line_spec)

text \<open>The example of the specification: a system message \<^verbatim>\<open>A\<close> and a user message \<^verbatim>\<open>B\<close>.\<close>

theorem huggingFace_prompt_example:
  "huggingFace_prompt [\<lparr>role = ''system'', content = ''A''\<rparr>, \<lparr>role = ''user'', content = ''B''\<rparr>]
   = ''System: A\<newline>User: B\<newline>Assistant:''"
  using huggingFace_prompt_spec
    [of "[\<lparr>role = ''system'', content = ''A''\<rparr>, \<lparr>role = ''user'', content = ''B''\<rparr>]"]
  by (simp add: spec_prompt_def spec_line_def role_label_def)

text \<open>
  C9. For every provider, model, message list, key, endpoint and behaviour of \<^verbatim>\<open>fetch\<close>,
  the standalone module's \<^verbatim>\<open>sendChat\<close> and the inlined \<^verbatim>\<open>AIProviders.sendChat\<close> issue the
  same requests and settle alike: the same reply, or an error of the same name and
  message.
\<close>

theorem sendChat_copies_agree:
  "AIProviders_sendChat env provider model messages apiKey localEndpoint
   = sendChat env provider model messages apiKey localEndpoint"
proof -
  define dispatched where "dispatched =
    (if provider = ''openrouter''
       then sendOpenRouterChat env model messages (default_empty apiKey)
     else if provider = ''huggingface''
       then sendHuggingFaceChat env model messages (default_empty apiKey)
     else if provider = ''local''
       then sendLocalChat env model messages (default_empty localEndpoint)
     else ([], Inl (Error (''Unsupported provider: '' @ provider))))"
  have copy: "AIProviders_sendChat env provider model messages apiKey localEndpoint =
      (case dispatched of
         (requests, settled) \<Rightarrow>
           (requests,
            (case settled of
               Inl error \<Rightarrow> Inl (Error (''AI request failed: '' @ message error))
             | Inr reply \<Rightarrow> Inr reply)))"
    unfolding AIProviders_sendChat_def Let_def sendOpenRouterChat_same sendHuggingFaceChat_same
      sendLocalChat_same dispatched_def default_empty_def
    by (rule refl)
  have module: "sendChat env provider model messages apiKey localEndpoint =
      (case dispatched of
         (requests, Inr reply) \<Rightarrow> (requests, Inr reply)
       | (requests, Inl error) \<Rightarrow>
           (requests, Inl (Error (''AI request failed: '' @ message error))))"
    unfolding sendChat_def dispatched_def by (rule refl)
  show ?thesis
    unfolding copy module by (cases dispatched) (simp split: sum.split)
qed

theorem sendChat_copies_agree_behind_cors:
  "AIProviders_sendChat (behind_cors 200 (JArr [])) ''huggingface'' ''gpt2''
     [\<lparr>role = ''user'', content = ''Hi''\<rparr>] None None
   = sendChat (behind_cors 200 (JArr [])) ''huggingface'' ''gpt2''
       [\<lparr>role = ''user'', content = ''Hi''\<rparr>] None None
   \<and> snd (AIProviders_sendChat (behind_cors 200 (JArr [])) ''huggingface'' ''gpt2''
       [\<lparr>role = ''user'', content = ''Hi''\<rparr>] None None)
     = Inr (JStr ''No response generated'')"
  using sendChat_copies_agree [of "behind_cors 200 (JArr [])" "''huggingface''" "''gpt2''"
      "[\<lparr>role = ''user'', content = ''Hi''\<rparr>]" None None]
  by (simp add: sendChat_huggingface sendHuggingFaceChat_def huggingFace_try_def
      huggingFace_retry_def salvage_def opt_call_trim_def behind_cors_def huggingFace_request_def
      withCors_def encodeURIComponent_def encode_unit_def unreserved_def percent_def hex_digit_def
      default_empty_def TypeError_def ok_def Let_def)

text \<open>
  C3. For every model, message list, key and endpoint, a provider identifier other than
  \<^verbatim>\<open>openrouter\<close>, \<^verbatim>\<open>huggingface\<close> and \<^verbatim>\<open>local\<close> makes \<^verbatim>\<open>sendChat\<close> fail with an error
  whose message names the unsupported provider, and no request is issued.
\<close>

theorem unsupported_provider:
  assumes "provider \<noteq> ''openrouter''" "provider \<noteq> ''huggingface''" "provider \<noteq> ''local''"
  shows "sendChat env provider model messages apiKey localEndpoint
         = ([], Inl (Error (''AI request failed: Unsupported provider: '' @ provider)))"
  using assms by (simp add: sendChat_def Error_def)

theorem unsupported_provider_witness:
  "sendChat offline ''unknown-provider'' ''llama3'' [\<lparr>role = ''user'', content = ''Hi''\<rparr>]
     (Some ''key'') (Some ''http://localhost:11434/api/chat'')
   = ([], Inl \<lparr>name = ''Error'',
                message = ''AI request failed: Unsupported provider: unknown-provider''\<rparr>)"
  using unsupported_provider [of "''unknown-provider''" offline "''llama3''"
      "[\<lparr>role = ''user'', content = ''Hi''\<rparr>]" "Some ''key''"
      "Some ''http://localhost:11434/api/chat''"]
  by (simp add: Error_def)

text \<open>
  C4. For every model and message list, \<^verbatim>\<open>sendChat\<close> with the provider \<^verbatim>\<open>openrouter\<close> and
  an empty key, or none, fails with an error whose message says that the API key is
  required, and no request is issued.
\<close>

theorem openrouter_missing_key:
  assumes "apiKey = None \<or> apiKey = Some []"
  shows "sendChat env ''openrouter'' model messages apiKey localEndpoint
         = ([], Inl (Error ''AI request failed: OpenRouter API key is required''))"
  using assms
  by (auto simp add: sendChat_openrouter sendOpenRouterChat_def default_empty_def Error_def)

theorem openrouter_missing_key_witness:
  "sendChat (answering 200 (JObj [])) ''openrouter'' ''deepseek/deepseek-r1:free''
     [\<lparr>role = ''user'', content = ''Hi''\<rparr>] (Some []) None
   = ([], Inl \<lparr>name = ''Error'',
                message = ''AI request failed: OpenRouter API key is required''\<rparr>)"
  using openrouter_missing_key [of "Some []" "answering 200 (JObj [])" "''deepseek/deepseek-r1:free''"
      "[\<lparr>role = ''user'', content = ''Hi''\<rparr>]" None]
  by (simp add: Error_def)

text \<open>
  C5. Whenever an adapter throws, \<^verbatim>\<open>sendChat\<close> throws one \<^verbatim>\<open>Error\<close> whose message is the
  adapter's message behind the fixed note \<^verbatim>\<open>AI request failed: \<close>, with the requests
  the adapter issued; so every error that leaves \<^verbatim>\<open>sendChat\<close> has the name \<^verbatim>\<open>Error\<close> and
  a message that starts with the note.
\<close>

theorem adapter_errors_rewrapped:
  "(sendOpenRouterChat env model messages (default_empty apiKey) = (requests, Inl e) \<longrightarrow>
      sendChat env ''openrouter'' model messages apiKey localEndpoint
      = (requests, Inl (Error (''AI request failed: '' @ message e))))
   \<and> (sendHuggingFaceChat env model messages (default_empty apiKey) = (requests, Inl e) \<longrightarrow>
      sendChat env ''huggingface'' model messages apiKey localEndpoint
      = (requests, Inl (Error (''AI request failed: '' @ message e))))
   \<and> (sendLocalChat env model messages (default_empty localEndpoint) = (requests, Inl e) \<longrightarrow>
      sendChat env ''local'' model messages apiKey localEndpoint
      = (requests, Inl (Error (''AI request failed: '' @ message e))))
   \<and> (sendChat env provider model messages apiKey localEndpoint = (requests, Inl e) \<longrightarrow>
      name e = ''Error'' \<and> is_prefix ''AI request failed: '' (message e))"
proof -
  have "name e = ''Error'' \<and> is_prefix ''AI request failed: '' (message e)"
    if "sendChat env provider model messages apiKey localEndpoint = (requests, Inl e)"
    using that unfolding sendChat_def rewrap
    by (auto simp add: Error_def split: sum.splits)
  then show ?thesis
    by (simp add: sendChat_openrouter sendChat_huggingface sendChat_local)
qed

theorem adapter_errors_rewrapped_offline:
  "sendLocalChat offline ''llama3'' [] []
   = ([local_request ''llama3'' [] []],
      Inl (Error ''Cannot connect to Ollama server. Make sure Ollama is running on the specified endpoint and CORS is enabled.''))
   \<and> sendChat offline ''local'' ''llama3'' [] None None
   = ([local_request ''llama3'' [] []],
      Inl (Error ''AI request failed: Cannot connect to Ollama server. Make sure Ollama is running on the specified endpoint and CORS is enabled.''))"
proof -
  have thrown: "sendLocalChat offline ''llama3'' [] (default_empty None)
      = ([local_request ''llama3'' [] []],
         Inl (Error ''Cannot connect to Ollama server. Make sure Ollama is running on the specified endpoint and CORS is enabled.''))"
    by (simp add: sendLocalChat_def local_try_def offline_def default_empty_def TypeError_def)
  with adapter_errors_rewrapped [of offline "''llama3''" "[]" None
      "[local_request ''llama3'' [] []]"
      "Error ''Cannot connect to Ollama server. Make sure Ollama is running on the specified endpoint and CORS is enabled.''"
      None "''local''"]
  show ?thesis by (simp add: Error_def default_empty_def)
qed

text \<open>
  C7. When the hosted router answers with a 2xx status (200 among them) and a body that
  is an object whose \<^verbatim>\<open>choices\<close> is the empty array, or that has no \<^verbatim>\<open>choices\<close> at all,
  \<^verbatim>\<open>sendChat\<close> fails with the invalid-response-format error of the adapter after its one
  request: reading the first choice is guarded, and nothing else is thrown.
\<close>

theorem openrouter_no_choices:
  assumes "apiKey \<noteq> []"
    and "fetch env (openRouter_request env model messages apiKey) = Resolved response"
    and "ok response"
    and "json response = Inr (JObj props)"
    and "map_of props ''choices'' = None \<or> map_of props ''choices'' = Some (JArr [])"
  shows "sendChat env ''openrouter'' model messages (Some apiKey) localEndpoint
         = ([openRouter_request env model messages apiKey],
            Inl (Error ''AI request failed: Invalid response format from OpenRouter''))"
proof -
  have "openRouter_try (Resolved response)
        = Inl (Error ''Invalid response format from OpenRouter'')"
    using assms(3,4,5) by (auto simp add: openRouter_try_def own_prop_def)
  with assms(1,2) show ?thesis
    by (simp add: sendChat_openrouter sendOpenRouterChat_def default_empty_def Error_def)
qed

theorem openrouter_no_choices_witness:
  "sendChat (answering 200 (JObj [(''choices'', JArr [])])) ''openrouter''
     ''deepseek/deepseek-r1:free'' [\<lparr>role = ''user'', content = ''Hi''\<rparr>] (Some ''key'') None
   = ([openRouter_request (answering 200 (JObj [(''choices'', JArr [])]))
         ''deepseek/deepseek-r1:free'' [\<lparr>role = ''user'', content = ''Hi''\<rparr>] ''key''],
      Inl (Error ''AI request failed: Invalid response format from OpenRouter''))"
  by (rule openrouter_no_choices [where response = "\<lparr>status = 200, json = Inr (JObj [(''choices'', JArr [])])\<rparr>"
        and props = "[(''choices'', JArr [])]"])
     (simp_all add: answering_def ok_def)

text \<open>
  C1, as amended. Given a 2xx response whose body has the provider's documented shape:
  for \<^verbatim>\<open>openrouter\<close>, \<^verbatim>\<open>sendChat\<close> returns the first choice's message content as it is,
  untrimmed; for \<^verbatim>\<open>huggingface\<close> and \<^verbatim>\<open>local\<close>, when the text is not the empty string,
  it returns the text with its leading and trailing white space trimmed. In each case
  exactly one request was issued.
\<close>

theorem documented_reply:
  assumes "ok response" and "json response = Inr data"
  shows "(apiKey \<noteq> []
          \<and> fetch env (openRouter_request env model messages apiKey) = Resolved response
          \<and> openrouter_text data = Some t
          \<longrightarrow> sendChat env ''openrouter'' model messages (Some apiKey) localEndpoint
              = ([openRouter_request env model messages apiKey], Inr (JStr t)))
       \<and> (fetch env (huggingFace_request model messages (default_empty optKey)) = Resolved response
          \<and> huggingface_text data = Some t \<and> t \<noteq> []
          \<longrightarrow> sendChat env ''huggingface'' model messages optKey localEndpoint
              = ([huggingFace_request model messages (default_empty optKey)], Inr (JStr (trim t))))
       \<and> (fetch env (local_request model messages (default_empty localEndpoint)) = Resolved response
          \<and> local_text data = Some t \<and> t \<noteq> []
          \<longrightarrow> sendChat env ''local'' model messages optKey localEndpoint
              = ([local_request model messages (default_empty localEndpoint)], Inr (JStr (trim t))))"
proof (intro conjI impI)
  assume "apiKey \<noteq> []
          \<and> fetch env (openRouter_request env model messages apiKey) = Resolved response
          \<and> openrouter_text data = Some t"
  with openRouter_try_text [OF assms, of t]
  show "sendChat env ''openrouter'' model messages (Some apiKey) localEndpoint
        = ([openRouter_request env model messages apiKey], Inr (JStr t))"
    by (simp add: sendChat_openrouter sendOpenRouterChat_def default_empty_def)
next
  assume "fetch env (huggingFace_request model messages (default_empty optKey)) = Resolved response
          \<and> huggingface_text data = Some t \<and> t \<noteq> []"
  with huggingFace_try_text [OF assms, of t]
  show "sendChat env ''huggingface'' model messages optKey localEndpoint
        = ([huggingFace_request model messages (default_empty optKey)], Inr (JStr (trim t)))"
    by (simp add: sendChat_huggingface sendHuggingFaceChat_def)
next
  assume "fetch env (local_request model messages (default_empty localEndpoint)) = Resolved response
          \<and> local_text data = Some t \<and> t \<noteq> []"
  with local_try_text [OF assms, of t model]
  show "sendChat env ''local'' model messages optKey localEndpoint
        = ([local_request model messages (default_empty localEndpoint)], Inr (JStr (trim t)))"
    by (simp add: sendChat_local sendLocalChat_def)
qed

theorem documented_reply_witness:
  "sendChat (answering 200 (JArr [JObj [(''generated_text'', JStr '' Hello there  '')]]))
     ''huggingface'' ''gpt2'' [\<lparr>role = ''user'', content = ''Hi''\<rparr>] None None
   = ([huggingFace_request ''gpt2'' [\<lparr>role = ''user'', content = ''Hi''\<rparr>] []],
      Inr (JStr ''Hello there''))"
proof -
  let ?data = "JArr [JObj [(''generated_text'', JStr '' Hello there  '')]]"
  let ?response = "\<lparr>status = 200, json = Inr ?data\<rparr>"
  have "ok ?response" and "json ?response = Inr ?data"
    by (simp_all add: ok_def)
  from documented_reply [OF this, where env = "answering 200 ?data" and model = "''gpt2''"
      and messages = "[\<lparr>role = ''user'', content = ''Hi''\<rparr>]" and t = "'' Hello there  ''"
      and optKey = None and localEndpoint = None and apiKey = "''key''"]
  show ?thesis
    by (simp add: answering_def default_empty_def trim_def is_space_def)
qed

text \<open>
  C1 as stated fails for \<^verbatim>\<open>openrouter\<close>: a content with surrounding blanks comes back
  with them.
\<close>

theorem openrouter_reply_not_trimmed:
  "openrouter_text (JObj [(''choices'', JArr [JObj [(''message'', JObj [(''content'', JStr '' Hello '')])]])])
   = Some '' Hello ''
   \<and> snd (sendChat (answering 200
              (JObj [(''choices'', JArr [JObj [(''message'', JObj [(''content'', JStr '' Hello '')])]])]))
            ''openrouter'' ''deepseek/deepseek-r1:free'' [\<lparr>role = ''user'', content = ''Hi''\<rparr>]
            (Some ''key'') None)
     = Inr (JStr '' Hello '')
   \<and> JStr '' Hello '' \<noteq> JStr (trim '' Hello '')"
  by (simp add: sendChat_openrouter sendOpenRouterChat_def openRouter_try_def
      choices0_message_content_def own_prop_def default_empty_def answering_def ok_def
      trim_def is_space_def)

text \<open>
  C6, at the input where the code departs from it: the hosted router answers with
  status 500 and the JSON body \<^verbatim>\<open>null\<close>. Reading \<^verbatim>\<open>error.error\<close> off \<^verbatim>\<open>null\<close> throws a
  \<^verbatim>\<open>TypeError\<close>, and the message of the failure is the engine's, with neither a remote
  message nor the status code in it.
\<close>

theorem openrouter_null_error_body:
  "sendChat (answering 500 JNull) ''openrouter'' ''deepseek/deepseek-r1:free''
     [\<lparr>role = ''user'', content = ''Hi''\<rparr>] (Some ''key'') None
   = ([openRouter_request (answering 500 JNull) ''deepseek/deepseek-r1:free''
         [\<lparr>role = ''user'', content = ''Hi''\<rparr>] ''key''],
      Inl (Error (''AI request failed: Cannot read properties of null (reading ''
                  @ quoted ''error'' @ '')'')))
   \<and> \<not> str_includes (''AI request failed: Cannot read properties of null (reading ''
                       @ quoted ''error'' @ '')'') (show_nat 500)"
  by (simp add: sendChat_openrouter sendOpenRouterChat_def openRouter_try_def
      throw_remote_error_def default_empty_def answering_def ok_def TypeError_def Error_def
      quoted_def show_nat.simps digit_def)

text \<open>
  C10, as amended. For the \<^verbatim>\<open>huggingface\<close> and \<^verbatim>\<open>local\<close> adapters, a 2xx response whose
  text field is the empty string fails with the adapter's invalid-response-format error
  rather than returning an empty reply; and \<^verbatim>\<open>sendChat\<close> returns the empty string for
  these two providers only when the primary response is 2xx and its text field is a
  string that is not empty and that trimming empties (white space only).
\<close>

theorem empty_text_rejected:
  "(fetch env (huggingFace_request model messages (default_empty optKey)) = Resolved response
      \<and> ok response \<and> json response = Inr data \<and> huggingface_text data = Some []
    \<longrightarrow> sendChat env ''huggingface'' model messages optKey localEndpoint
        = ([huggingFace_request model messages (default_empty optKey)],
           Inl (Error ''AI request failed: Invalid response format from HuggingFace'')))
   \<and> (fetch env (local_request model messages (default_empty localEndpoint)) = Resolved response
      \<and> ok response \<and> json response = Inr data \<and> local_text data = Some []
    \<longrightarrow> sendChat env ''local'' model messages optKey localEndpoint
        = ([local_request model messages (default_empty localEndpoint)],
           Inl (Error ''AI request failed: Invalid response format from Ollama'')))
   \<and> (sendChat env ''huggingface'' model messages optKey localEndpoint = (requests, Inr (JStr []))
    \<longrightarrow> (\<exists>answer body t.
          fetch env (huggingFace_request model messages (default_empty optKey)) = Resolved answer
          \<and> ok answer \<and> json answer = Inr body
          \<and> huggingface_text body = Some t \<and> t \<noteq> [] \<and> trim t = []))
   \<and> (sendChat env ''local'' model messages optKey localEndpoint = (requests, Inr (JStr []))
    \<longrightarrow> (\<exists>answer body t.
          fetch env (local_request model messages (default_empty localEndpoint)) = Resolved answer
          \<and> ok answer \<and> json answer = Inr body
          \<and> local_text body = Some t \<and> t \<noteq> [] \<and> trim t = []))"
proof (intro conjI impI)
  assume "fetch env (huggingFace_request model messages (default_empty optKey)) = Resolved response
      \<and> ok response \<and> json response = Inr data \<and> huggingface_text data = Some []"
  then show "sendChat env ''huggingface'' model messages optKey localEndpoint
        = ([huggingFace_request model messages (default_empty optKey)],
           Inl (Error ''AI request failed: Invalid response format from HuggingFace''))"
    using huggingFace_try_empty_text [of response data]
    by (simp add: sendChat_huggingface sendHuggingFaceChat_def Error_def)
next
  assume "fetch env (local_request model messages (default_empty localEndpoint)) = Resolved response
      \<and> ok response \<and> json response = Inr data \<and> local_text data = Some []"
  then show "sendChat env ''local'' model messages optKey localEndpoint
        = ([local_request model messages (default_empty localEndpoint)],
           Inl (Error ''AI request failed: Invalid response format from Ollama''))"
    using local_try_empty_text [of response data model]
    by (simp add: sendChat_local sendLocalChat_def Error_def)
next
  let ?req = "huggingFace_request model messages (default_empty optKey)"
  assume "sendChat env ''huggingface'' model messages optKey localEndpoint = (requests, Inr (JStr []))"
  then have "huggingFace_try (fetch env ?req) = Inr (JStr [])"
    using huggingFace_retry_not_empty
    by (auto simp add: sendChat_huggingface sendHuggingFaceChat_def Let_def
        split: sum.splits if_splits)
  from huggingFace_try_empty_reply [OF this]
  show "\<exists>answer body t. fetch env ?req = Resolved answer \<and> ok answer \<and> json answer = Inr body
          \<and> huggingface_text body = Some t \<and> t \<noteq> [] \<and> trim t = []" .
next
  let ?req = "local_request model messages (default_empty localEndpoint)"
  assume "sendChat env ''local'' model messages optKey localEndpoint = (requests, Inr (JStr []))"
  then have "local_try model (fetch env ?req) = Inr (JStr [])"
    by (auto simp add: sendChat_local sendLocalChat_def Let_def split: sum.splits if_splits)
  from local_try_empty_reply [OF this]
  show "\<exists>answer body t. fetch env ?req = Resolved answer \<and> ok answer \<and> json answer = Inr body
          \<and> local_text body = Some t \<and> t \<noteq> [] \<and> trim t = []" .
qed

theorem empty_text_rejected_witness:
  "sendChat (answering 200 (JObj [(''message'', JObj [(''content'', JStr [])])])) ''local'' ''llama3''
     [\<lparr>role = ''user'', content = ''Hi''\<rparr>] None None
   = ([local_request ''llama3'' [\<lparr>role = ''user'', content = ''Hi''\<rparr>] []],
      Inl (Error ''AI request failed: Invalid response format from Ollama''))"
  using empty_text_rejected [where env = "answering 200 (JObj [(''message'', JObj [(''content'', JStr [])])])"
      and model = "''llama3''" and messages = "[\<lparr>role = ''user'', content = ''Hi''\<rparr>]"
      and optKey = None and localEndpoint = None
      and response = "\<lparr>status = 200, json = Inr (JObj [(''message'', JObj [(''content'', JStr [])])])\<rparr>"
      and data = "JObj [(''message'', JObj [(''content'', JStr [])])]"]
  by (simp add: answering_def ok_def default_empty_def)

text \<open>
  C10 as stated fails in its last part: a text of one blank passes the truthiness test
  and is trimmed to the empty string, which \<^verbatim>\<open>sendChat\<close> returns.
\<close>

theorem blank_text_gives_empty_reply:
  "huggingface_text (JObj [(''generated_text'', JStr '' '')]) = Some '' ''
   \<and> sendChat (answering 200 (JObj [(''generated_text'', JStr '' '')])) ''huggingface'' ''gpt2''
       [\<lparr>role = ''user'', content = ''Hi''\<rparr>] None None
     = ([huggingFace_request ''gpt2'' [\<lparr>role = ''user'', content = ''Hi''\<rparr>] []], Inr (JStr []))"
  by (simp add: sendChat_huggingface sendHuggingFaceChat_def huggingFace_try_def
      first_generated_text_def is_array_def own_prop_def default_empty_def answering_def ok_def
      trim_def is_space_def)

text \<open>
  C8. On the retry through the CORS proxy (the direct request was rejected with a
  \<^verbatim>\<open>TypeError\<close> that mentions CORS, the proxy answers 2xx with a body that parses), when
  neither the generated-text of the body's first element nor the one of the body itself
  is usable, the \<^verbatim>\<open>huggingface\<close> adapter makes \<^verbatim>\<open>sendChat\<close> return the placeholder
  \<^verbatim>\<open>No response generated\<close> instead of failing. The other two adapters fail there: the
  \<^verbatim>\<open>openrouter\<close> retry throws its CORS error when the first choice's message content
  cannot be read off the proxy's body, and \<^verbatim>\<open>local\<close> throws its cannot-connect error
  without a retry.
\<close>

theorem huggingface_placeholder:
  assumes "name e = ''TypeError''" and "str_includes (message e) ''CORS''"
    and "ok corsResponse" and "json corsResponse = Inr corsData"
  shows "(fetch env (huggingFace_request model messages (default_empty optKey)) = Rejected e
          \<and> fetch env ((huggingFace_request model messages (default_empty optKey))
                \<lparr>url := withCors (url (huggingFace_request model messages (default_empty optKey)))\<rparr>)
             = Resolved corsResponse
          \<and> get_index0 corsData = Inr first
          \<and> unusable (opt_prop first ''generated_text'')
          \<and> unusable (opt_prop corsData ''generated_text'')
        \<longrightarrow> sendChat env ''huggingface'' model messages optKey localEndpoint
            = ([huggingFace_request model messages (default_empty optKey),
                (huggingFace_request model messages (default_empty optKey))
                  \<lparr>url := withCors (url (huggingFace_request model messages (default_empty optKey)))\<rparr>],
               Inr (JStr ''No response generated'')))
       \<and> (apiKey \<noteq> []
          \<and> fetch env (openRouter_request env model messages apiKey) = Rejected e
          \<and> fetch env ((openRouter_request env model messages apiKey)
                \<lparr>url := withCors (url (openRouter_request env model messages apiKey))\<rparr>)
             = Resolved corsResponse
          \<and> choices0_message_content corsData = Inl thrown
        \<longrightarrow> sendChat env ''openrouter'' model messages (Some apiKey) localEndpoint
            = ([openRouter_request env model messages apiKey,
                (openRouter_request env model messages apiKey)
                  \<lparr>url := withCors (url (openRouter_request env model messages apiKey))\<rparr>],
               Inl (Error ''AI request failed: CORS error - try enabling browser CORS extension or use different provider'')))
       \<and> (fetch env (local_request model messages (default_empty localEndpoint)) = Rejected e
        \<longrightarrow> sendChat env ''local'' model messages optKey localEndpoint
            = ([local_request model messages (default_empty localEndpoint)],
               Inl (Error ''AI request failed: Cannot connect to Ollama server. Make sure Ollama is running on the specified endpoint and CORS is enabled.'')))"
proof (intro conjI impI)
  let ?req = "huggingFace_request model messages (default_empty optKey)"
  assume a: "fetch env ?req = Rejected e
          \<and> fetch env (?req\<lparr>url := withCors (url ?req)\<rparr>) = Resolved corsResponse
          \<and> get_index0 corsData = Inr first
          \<and> unusable (opt_prop first ''generated_text'')
          \<and> unusable (opt_prop corsData ''generated_text'')"
  have nonnull: "get_prop corsData ''generated_text'' = Inr (opt_prop corsData ''generated_text'')"
    using a by (cases corsData) simp_all
  have u: "opt_call_trim site g = Inr JUndefined \<or> opt_call_trim site g = Inr (JStr [])"
    if "unusable g" for site g
    using that by (cases g) (simp_all add: opt_call_trim_def)
  have "salvage corsData = Inr (JStr ''No response generated'')"
    using a nonnull u [of "opt_prop first ''generated_text''" "''corsData[0]?.generated_text?.trim''"]
      u [of "opt_prop corsData ''generated_text''" "''corsData.generated_text?.trim''"]
    by (auto simp add: salvage_def)
  with a assms show "sendChat env ''huggingface'' model messages optKey localEndpoint
            = ([?req, ?req\<lparr>url := withCors (url ?req)\<rparr>], Inr (JStr ''No response generated''))"
    by (simp add: sendChat_huggingface sendHuggingFaceChat_def Let_def huggingFace_try_def
        huggingFace_retry_def)
next
  let ?req = "openRouter_request env model messages apiKey"
  assume "apiKey \<noteq> []
          \<and> fetch env ?req = Rejected e
          \<and> fetch env (?req\<lparr>url := withCors (url ?req)\<rparr>) = Resolved corsResponse
          \<and> choices0_message_content corsData = Inl thrown"
  with assms show "sendChat env ''openrouter'' model messages (Some apiKey) localEndpoint
            = ([?req, ?req\<lparr>url := withCors (url ?req)\<rparr>],
               Inl (Error ''AI request failed: CORS error - try enabling browser CORS extension or use different provider''))"
    by (simp add: sendChat_openrouter sendOpenRouterChat_def Let_def openRouter_try_def
        openRouter_retry_def default_empty_def Error_def)
next
  assume "fetch env (local_request model messages (default_empty localEndpoint)) = Rejected e"
  with assms show "sendChat env ''local'' model messages optKey localEndpoint
            = ([local_request model messages (default_empty localEndpoint)],
               Inl (Error ''AI request failed: Cannot connect to Ollama server. Make sure Ollama is running on the specified endpoint and CORS is enabled.''))"
    by (simp add: sendChat_local sendLocalChat_def Let_def local_try_def Error_def)
qed

theorem huggingface_placeholder_witness:
  "sendChat (behind_cors 200 (JArr [JObj [(''generated_text'', JStr ''  '')]])) ''huggingface'' ''gpt2''
     [\<lparr>role = ''user'', content = ''Hi''\<rparr>] None None
   = ([huggingFace_request ''gpt2'' [\<lparr>role = ''user'', content = ''Hi''\<rparr>] [],
       (huggingFace_request ''gpt2'' [\<lparr>role = ''user'', content = ''Hi''\<rparr>] [])
         \<lparr>url := ''https://api.allorigins.win/raw?url=https%3A%2F%2Fapi-inference.huggingface.co%2Fmodels%2Fgpt2''\<rparr>],
      Inr (JStr ''No response generated''))"
proof -
  let ?data = "JArr [JObj [(''generated_text'', JStr ''  '')]]"
  let ?e = "TypeError ''Blocked by CORS policy''"
  let ?r = "\<lparr>status = 200, json = Inr ?data\<rparr>"
  have "name ?e = ''TypeError''" "str_includes (message ?e) ''CORS''" "ok ?r" "json ?r = Inr ?data"
    by (simp_all add: TypeError_def ok_def)
  from huggingface_placeholder [OF this, where env = "behind_cors 200 ?data" and model = "''gpt2''"
      and messages = "[\<lparr>role = ''user'', content = ''Hi''\<rparr>]" and optKey = None
      and first = "JObj [(''generated_text'', JStr ''  '')]" and localEndpoint = None
      and apiKey = "''key''" and thrown = "Error []"]
  show ?thesis
    by (simp add: behind_cors_def huggingFace_request_def withCors_def encodeURIComponent_def
        encode_unit_def unreserved_def percent_def hex_digit_def default_empty_def own_prop_def
        trim_def is_space_def)
qed

end
